theory Spec2Isabelle
  imports Main "HOL-Library.Char_ord" "HOL-Library.Multiset"
begin

section \<open>The AWS wire-protocol decoder of proxy.go\<close>

text \<open>
  The development follows \<^verbatim>\<open>src/proxy.go\<close>: the service model (lines 170-208), the value
  flattener \<^verbatim>\<open>flatten\<close> (236-268), the request decoder \<^verbatim>\<open>handleAWSRequest\<close> (270-414)
  and the shape resolver \<^verbatim>\<open>resolvePropertyName\<close> (416-473).

  Conventions of the embedding.
  \<^item> A Go \<^verbatim>\<open>string\<close> is a \<^typ>\<open>string\<close> of bytes; the empty Go string is \<^term>\<open>[] :: string\<close>.
  \<^item> A Go map that the code iterates with \<^verbatim>\<open>range\<close> is an association list whose order
    is the order in which that run of the program visits the keys (Go leaves the order
    unspecified); a map that is only indexed is a partial function, and indexing a
    missing key gives the zero value, as in Go.
  \<^item> A run-time panic is a value of type \<open>panic\<close>; a function that can panic returns
    \<open>panic + 'a\<close>.
  \<^item> The recursion of \<^verbatim>\<open>resolvePropertyName\<close> follows shape references through the shape
    table and need not end. It is given a bound on its call depth (the fuel);
    \<^term>\<open>None\<close> means the bound was reached.
  \<^item> Functions of Go's standard library whose code is not part of the repository
    (\<^verbatim>\<open>strings.ToLower\<close>, \<^verbatim>\<open>fmt.Sprintf("%v")\<close> on a \<^verbatim>\<open>float64\<close>, \<^verbatim>\<open>json.Unmarshal\<close>,
    \<^verbatim>\<open>url.ParseRequestURI\<close>, \<^verbatim>\<open>url.ParseQuery\<close>, and \<^verbatim>\<open>regexp\<close> on a pattern computed at
    run time) are fields of a record \<open>GoLib\<close> that the decoder takes as an argument. The
    regular expressions that are constants of the source are written out as functions
    below.
\<close>

subsection \<open>Panics\<close>

datatype panic =
    SliceBoundsOutOfRange
  | IndexOutOfRange
  | NilPointerDereference
  | RegexpMustCompile

subsection \<open>Service model\<close>

record ServiceHttp =
  Method :: string
  RequestURI :: string
  ResponseCode :: int

datatype ServiceStructure = ServiceStructure
  (Shape: string)
  (Type: string)
  (Member: "ServiceStructure option")
  (Members: "(string \<times> ServiceStructure) list")
  (LocationName: string)
  (QueryName: string)

record ServiceOperation =
  Http :: ServiceHttp
  Input :: ServiceStructure
  Output :: ServiceStructure

record ServiceDefinitionMetadata =
  APIVersion :: string
  EndpointPrefix :: string
  JSONVersion :: string
  Protocol :: string
  ServiceFullName :: string
  ServiceID :: string
  SignatureVersion :: string
  TargetPrefix :: string
  UID :: string

record ServiceDefinition =
  Version :: string
  Metadata :: ServiceDefinitionMetadata
  Operations :: "(string \<times> ServiceOperation) list"
  Shapes :: "string \<rightharpoonup> ServiceStructure"

text \<open>Go's zero values of the structs.\<close>

definition zeroServiceStructure :: ServiceStructure where
  "zeroServiceStructure = ServiceStructure [] [] None [] [] []"

definition zeroServiceOperation :: ServiceOperation where
  "zeroServiceOperation =
     \<lparr>Http = \<lparr>Method = [], RequestURI = [], ResponseCode = 0\<rparr>,
      Input = zeroServiceStructure, Output = zeroServiceStructure\<rparr>"

definition zeroServiceDefinition :: ServiceDefinition where
  "zeroServiceDefinition =
     \<lparr>Version = [],
      Metadata = \<lparr>APIVersion = [], EndpointPrefix = [], JSONVersion = [], Protocol = [],
                  ServiceFullName = [], ServiceID = [], SignatureVersion = [],
                  TargetPrefix = [], UID = []\<rparr>,
      Operations = [], Shapes = Map.empty\<rparr>"

subsection \<open>Strings\<close>

text \<open>\<^verbatim>\<open>strings.Split(s, sep)\<close> for a separator of one byte: one more field than separators.\<close>

fun Split :: "string \<Rightarrow> char \<Rightarrow> string list" where
  "Split [] sep = [[]]"
| "Split (c # cs) sep =
     (if c = sep then [] # Split cs sep
      else (case Split cs sep of w # ws \<Rightarrow> (c # w) # ws | [] \<Rightarrow> [[c]]))"

text \<open>\<^verbatim>\<open>strings.HasSuffix\<close>.\<close>

definition HasSuffix :: "string \<Rightarrow> string \<Rightarrow> bool" where
  "HasSuffix s suffix =
     (length s \<ge> length suffix \<and> drop (length s - length suffix) s = suffix)"

definition isDigit :: "char \<Rightarrow> bool" where
  "isDigit c = (CHR ''0'' \<le> c \<and> c \<le> CHR ''9'')"

subsection \<open>The constant regular expressions\<close>

text \<open>
  A matcher gives, for a string, the length of the match of its regular expression that
  starts at the first byte (Go's leftmost-first match), and 0 when no match starts
  there. None of the three expressions below matches the empty string.
  \<open>ReplaceAllString\<close> and \<open>FindAllString\<close> are \<^verbatim>\<open>regexp.ReplaceAllString\<close> (with a
  replacement free of \<^verbatim>\<open>$\<close>) and \<^verbatim>\<open>regexp.FindAllString(s, -1)\<close> for such a matcher: the
  matches are taken from left to right and do not overlap.
\<close>

fun ReplaceAllString :: "(string \<Rightarrow> nat) \<Rightarrow> string \<Rightarrow> string \<Rightarrow> string" where
  "ReplaceAllString re [] repl = []"
| "ReplaceAllString re (c # cs) repl =
     (if re (c # cs) = 0 then c # ReplaceAllString re cs repl
      else repl @ ReplaceAllString re (drop (re (c # cs) - 1) cs) repl)"

fun FindAllString :: "(string \<Rightarrow> nat) \<Rightarrow> string \<Rightarrow> string list" where
  "FindAllString re [] = []"
| "FindAllString re (c # cs) =
     (if re (c # cs) = 0 then FindAllString re cs
      else take (re (c # cs)) (c # cs) # FindAllString re (drop (re (c # cs) - 1) cs))"

text \<open>\<^verbatim>\<open>\.member\.[0-9]+\<close>: the eight bytes \<^verbatim>\<open>.member.\<close>, then as many digits as follow
  (at least one).\<close>

definition reDotMemberNumber :: "string \<Rightarrow> nat" where
  "reDotMemberNumber s =
     (if take 8 s = ''.member.'' \<and> takeWhile isDigit (drop 8 s) \<noteq> []
      then 8 + length (takeWhile isDigit (drop 8 s)) else 0)"

text \<open>\<^verbatim>\<open>\.[0-9]+\<close>: a dot, then as many digits as follow (at least one).\<close>

definition reDotNumber :: "string \<Rightarrow> nat" where
  "reDotNumber s =
     (case s of
        c # cs \<Rightarrow>
          if c = CHR ''.'' \<and> takeWhile isDigit cs \<noteq> []
          then 1 + length (takeWhile isDigit cs) else 0
      | [] \<Rightarrow> 0)"

text \<open>\<^verbatim>\<open>{([^/]+?)}\<close>: an opening brace, one byte other than \<^verbatim>\<open>/\<close>, then the fewest
  further bytes other than \<^verbatim>\<open>/\<close> up to a closing brace.\<close>

definition rePlaceholder :: "string \<Rightarrow> nat" where
  "rePlaceholder s =
     (case s of
        c0 # c1 # cs \<Rightarrow>
          if c0 = CHR ''{'' \<and> c1 \<noteq> CHR ''/'' then
            (case dropWhile (\<lambda>c. c \<noteq> CHR ''}'' \<and> c \<noteq> CHR ''/'') cs of
               d # ds \<Rightarrow>
                 if d = CHR ''}''
                 then 3 + length (takeWhile (\<lambda>c. c \<noteq> CHR ''}'' \<and> c \<noteq> CHR ''/'') cs)
                 else 0
             | [] \<Rightarrow> 0)
          else 0
      | _ \<Rightarrow> 0)"

text \<open>The first submatch of a match of \<^verbatim>\<open>{([^/]+?)}\<close>: the match without its braces.\<close>

definition placeholderName :: "string \<Rightarrow> string" where
  "placeholderName m = take (length m - 2) (drop 1 m)"

text \<open>Lines 322-323 and 378-379: the two replacements applied to a query or form key.\<close>

definition normalizeKey :: "string \<Rightarrow> string" where
  "normalizeKey k =
     ReplaceAllString reDotNumber (ReplaceAllString reDotMemberNumber k ''[]'') ''[]''"

text \<open>
  Lines 397-401, \<^verbatim>\<open>\.(.+)\.amazonaws\.com(?:\.cn)?$\<close>: \<open>regionGroup r\<close> is the group
  captured when the match starts at the dot just before \<open>r\<close>: \<open>r\<close> without its suffix,
  non-empty and free of line feeds (which \<^verbatim>\<open>.\<close> does not match). \<open>FindRegion\<close> tries
  the dots from the left, as the leftmost match does.
\<close>

definition regionGroup :: "string \<Rightarrow> string option" where
  "regionGroup r =
     (let g = (if HasSuffix r ''.amazonaws.com'' then Some (take (length r - 14) r)
               else if HasSuffix r ''.amazonaws.com.cn'' then Some (take (length r - 17) r)
               else None)
      in case g of
           None \<Rightarrow> None
         | Some x \<Rightarrow> if x \<noteq> [] \<and> CHR 0x0A \<notin> set x then Some x else None)"

fun FindRegion :: "string \<Rightarrow> string option" where
  "FindRegion [] = None"
| "FindRegion (c # cs) =
     (if c = CHR ''.'' then (case regionGroup cs of Some g \<Rightarrow> Some g | None \<Rightarrow> FindRegion cs)
      else FindRegion cs)"

text \<open>Line 158, \<^verbatim>\<open>^.*\.amazonaws\.com(?:\.cn)?$\<close>.\<close>

definition isAWSHostname :: "string \<Rightarrow> bool" where
  "isAWSHostname host =
     ((HasSuffix host ''.amazonaws.com'' \<or> HasSuffix host ''.amazonaws.com.cn'')
      \<and> CHR 0x0A \<notin> set host)"

subsection \<open>The shape resolver (lines 416-473)\<close>

text \<open>Lines 421-427: a reference is replaced by the shape it names (the zero value when
  the table has no such shape), keeping the names set at the reference.\<close>

definition derefShape :: "ServiceStructure \<Rightarrow> (string \<rightharpoonup> ServiceStructure) \<Rightarrow> ServiceStructure" where
  "derefShape obj shapes =
     (if Shape obj \<noteq> [] then
        (case (case shapes (Shape obj) of None \<Rightarrow> zeroServiceStructure | Some s \<Rightarrow> s) of
           ServiceStructure sh ty mem mems _ _ \<Rightarrow>
             ServiceStructure sh ty mem mems (LocationName obj) (QueryName obj))
      else obj)"

text \<open>Lines 452-457: the accumulated wire path loses one trailing \<^verbatim>\<open>[]\<close> (when longer
  than two bytes) and then one leading dot.\<close>

definition trimLocationPath :: "string \<Rightarrow> string" where
  "trimLocationPath locationPath =
     (let lp = (if length locationPath > 2 \<and>
                   drop (length locationPath - 2) locationPath = ''[]''
                then take (length locationPath - 2) locationPath else locationPath)
      in if length lp > 0 \<and> hd lp = CHR ''.'' then tl lp else lp)"

text \<open>
  \<open>resolvePropertyName\<close> is the function of the source; \<open>resolveMembers\<close> is its loop
  over the members of a structure (lines 433-450). The slice expression of line 417
  panics when the search key has fewer than two bytes; line 466 dereferences the
  \<^verbatim>\<open>Member\<close> pointer, which is nil when the model gives a list no member.
\<close>

text \<open>The cases of the \<^verbatim>\<open>switch obj.Type\<close> of line 429; \<open>Other\<close> is a type that no case
  lists, for which the function falls through to its last line.\<close>

datatype typeCase = Opaque | Structure | Leaf | List | Other

definition switchType :: "string \<Rightarrow> typeCase" where
  "switchType t =
     (if t \<in> {''boolean'', ''timestamp'', ''blob'', ''map''} then Opaque
      else if t = ''structure'' then Structure
      else if t \<in> {''long'', ''float'', ''integer'', [], ''string''} then Leaf
      else if t = ''list'' then List
      else Other)"

fun resolvePropertyName ::
  "(string \<Rightarrow> string) \<Rightarrow> nat \<Rightarrow> ServiceStructure \<Rightarrow> string \<Rightarrow> string \<Rightarrow> string \<Rightarrow>
     (string \<rightharpoonup> ServiceStructure) \<Rightarrow> (panic + string) option"
and resolveMembers ::
  "(string \<Rightarrow> string) \<Rightarrow> nat \<Rightarrow> (string \<times> ServiceStructure) list \<Rightarrow> string \<Rightarrow> string \<Rightarrow> string \<Rightarrow>
     (string \<rightharpoonup> ServiceStructure) \<Rightarrow> (panic + string) option"
where
  "resolvePropertyName lower 0 obj searchProp path locationPath shapes = None"
| "resolvePropertyName lower (Suc fuel) obj searchProp path locationPath shapes =
     (if length searchProp < 2 then Some (Inl SliceBoundsOutOfRange)
      else
        let searchProp' = (if drop (length searchProp - 2) searchProp = ''[]''
                           then take (length searchProp - 2) searchProp else searchProp);
            obj' = derefShape obj shapes
        in case switchType (Type obj') of
             Opaque \<Rightarrow> Some (Inr [])
           | Structure \<Rightarrow>
               resolveMembers lower fuel (Members obj') searchProp' path locationPath shapes
           | Leaf \<Rightarrow>
               if lower (trimLocationPath locationPath) = lower searchProp'
               then Some (Inr path) else Some (Inr [])
           | List \<Rightarrow>
               (case Member obj' of
                  None \<Rightarrow> Some (Inl NilPointerDereference)
                | Some m \<Rightarrow>
                    resolvePropertyName lower fuel m searchProp'
                      (path @ ''[]'') (locationPath @ ''[]'') shapes)
           | Other \<Rightarrow> Some (Inr []))"
| "resolveMembers lower fuel [] searchProp path locationPath shapes = Some (Inr [])"
| "resolveMembers lower fuel ((k, v) # rest) searchProp path locationPath shapes =
     (let newPath = (if path = [] then k else path @ ''.'' @ k);
          newLocationPath =
            (if QueryName v \<noteq> [] then locationPath @ ''.'' @ QueryName v
             else if LocationName v \<noteq> [] then locationPath @ ''.'' @ LocationName v
             else locationPath @ ''.'' @ k)
      in case resolvePropertyName lower fuel v searchProp newPath newLocationPath shapes of
           None \<Rightarrow> None
         | Some (Inl p) \<Rightarrow> Some (Inl p)
         | Some (Inr ret) \<Rightarrow>
             if ret \<noteq> [] then Some (Inr ret)
             else resolveMembers lower fuel rest searchProp path locationPath shapes)"

subsection \<open>The resolver when every loop takes its own order\<close>

text \<open>
  \<open>resolveMembers\<close> visits the members in the order of the list it is given, in every
  call. In Go each execution of the loop of line 433 visits the map in an order of its
  own, so two resolutions against one shape, and two visits of one shape of the table
  within a resolution, need not take the same order. \<open>resolveRun\<close> relates a call of
  \<^verbatim>\<open>resolvePropertyName\<close> to what it returns (or the panic) in a run that ends, where each
  loop visits some rearrangement of the members; \<open>membersRun\<close> is the loop on the
  order it took. A run that does not end has no result.
\<close>

text \<open>Lines 417-419, for a search key of at least two bytes: one trailing \<^verbatim>\<open>[]\<close> is cut.\<close>

definition stripBrackets :: "string \<Rightarrow> string" where
  "stripBrackets s = (if HasSuffix s ''[]'' then take (length s - 2) s else s)"

inductive resolveRun ::
  "(string \<Rightarrow> string) \<Rightarrow> ServiceStructure \<Rightarrow> string \<Rightarrow> string \<Rightarrow> string \<Rightarrow>
     (string \<rightharpoonup> ServiceStructure) \<Rightarrow> panic + string \<Rightarrow> bool"
and membersRun ::
  "(string \<Rightarrow> string) \<Rightarrow> (string \<times> ServiceStructure) list \<Rightarrow> string \<Rightarrow> string \<Rightarrow> string \<Rightarrow>
     (string \<rightharpoonup> ServiceStructure) \<Rightarrow> panic + string \<Rightarrow> bool"
where
  ShortKey:
    "length searchProp < 2 \<Longrightarrow>
     resolveRun lower obj searchProp path locationPath shapes (Inl SliceBoundsOutOfRange)"
| OpaqueType:
    "2 \<le> length searchProp \<Longrightarrow>
     switchType (Type (derefShape obj shapes)) = Opaque \<Longrightarrow>
     resolveRun lower obj searchProp path locationPath shapes (Inr [])"
| StructureType:
    "2 \<le> length searchProp \<Longrightarrow>
     switchType (Type (derefShape obj shapes)) = Structure \<Longrightarrow>
     mset members = mset (Members (derefShape obj shapes)) \<Longrightarrow>
     membersRun lower members (stripBrackets searchProp) path locationPath shapes r \<Longrightarrow>
     resolveRun lower obj searchProp path locationPath shapes r"
| LeafType:
    "2 \<le> length searchProp \<Longrightarrow>
     switchType (Type (derefShape obj shapes)) = Leaf \<Longrightarrow>
     resolveRun lower obj searchProp path locationPath shapes
       (Inr (if lower (trimLocationPath locationPath) = lower (stripBrackets searchProp)
             then path else []))"
| ListNoMember:
    "2 \<le> length searchProp \<Longrightarrow>
     switchType (Type (derefShape obj shapes)) = List \<Longrightarrow>
     Member (derefShape obj shapes) = None \<Longrightarrow>
     resolveRun lower obj searchProp path locationPath shapes (Inl NilPointerDereference)"
| ListType:
    "2 \<le> length searchProp \<Longrightarrow>
     switchType (Type (derefShape obj shapes)) = List \<Longrightarrow>
     Member (derefShape obj shapes) = Some m \<Longrightarrow>
     resolveRun lower m (stripBrackets searchProp) (path @ ''[]'') (locationPath @ ''[]'')
       shapes r \<Longrightarrow>
     resolveRun lower obj searchProp path locationPath shapes r"
| OtherType:
    "2 \<le> length searchProp \<Longrightarrow>
     switchType (Type (derefShape obj shapes)) = Other \<Longrightarrow>
     resolveRun lower obj searchProp path locationPath shapes (Inr [])"
| NoMember:
    "membersRun lower [] searchProp path locationPath shapes (Inr [])"
| MemberReturns:
    "resolveRun lower v searchProp (if path = [] then k else path @ ''.'' @ k)
       (if QueryName v \<noteq> [] then locationPath @ ''.'' @ QueryName v
        else if LocationName v \<noteq> [] then locationPath @ ''.'' @ LocationName v
        else locationPath @ ''.'' @ k) shapes r \<Longrightarrow>
     r \<noteq> Inr [] \<Longrightarrow>
     membersRun lower ((k, v) # rest) searchProp path locationPath shapes r"
| MemberEmpty:
    "resolveRun lower v searchProp (if path = [] then k else path @ ''.'' @ k)
       (if QueryName v \<noteq> [] then locationPath @ ''.'' @ QueryName v
        else if LocationName v \<noteq> [] then locationPath @ ''.'' @ LocationName v
        else locationPath @ ''.'' @ k) shapes (Inr []) \<Longrightarrow>
     membersRun lower rest searchProp path locationPath shapes r \<Longrightarrow>
     membersRun lower ((k, v) # rest) searchProp path locationPath shapes r"

subsection \<open>Decoded JSON and the value flattener (lines 236-268)\<close>

text \<open>
  What \<^verbatim>\<open>json.Unmarshal\<close> stores in an \<^verbatim>\<open>interface{}\<close>: a \<^verbatim>\<open>map[string]interface{}\<close>, a
  \<^verbatim>\<open>[]interface{}\<close>, or one of \<^verbatim>\<open>string\<close>, \<^verbatim>\<open>float64\<close>, \<^verbatim>\<open>bool\<close> and \<^verbatim>\<open>nil\<close>. The type \<open>'f\<close>
  stands for \<^verbatim>\<open>float64\<close>.
\<close>

datatype 'f scalar = String string | Float64 'f | Bool bool | Nil

datatype 'f json =
    Object "(string \<times> 'f json) list"
  | Array "'f json list"
  | Scalar "'f scalar"

datatype error = InvalidObjectType

type_synonym flatMap = "string \<rightharpoonup> string list"

text \<open>Indexing a \<^verbatim>\<open>map[string][]string\<close>: the nil slice for a missing key.\<close>

definition index :: "flatMap \<Rightarrow> string \<Rightarrow> string list" where
  "index m k = (case m k of None \<Rightarrow> [] | Some vs \<Rightarrow> vs)"

text \<open>\<^verbatim>\<open>fmt.Sprintf("%v", v)\<close> for a scalar; \<open>fmtFloat\<close> is its value on a \<^verbatim>\<open>float64\<close>.\<close>

fun Sprintv :: "('f \<Rightarrow> string) \<Rightarrow> 'f scalar \<Rightarrow> string" where
  "Sprintv fmtFloat (String s) = s"
| "Sprintv fmtFloat (Float64 f) = fmtFloat f"
| "Sprintv fmtFloat (Bool b) = (if b then ''true'' else ''false'')"
| "Sprintv fmtFloat Nil = ''<nil>''"

text \<open>
  \<open>flatten\<close> and its closure \<open>assign\<close> (\<open>isTop\<close> is the parameter \<^verbatim>\<open>top\<close>); \<open>flattenObject\<close> and \<open>flattenArray\<close> are the two
  loops of lines 252-258 and 260-262, which drop what \<open>assign\<close> returns. The map is
  updated in place in the source, so every function returns it, beside the error.
\<close>

fun flatten ::
  "('f \<Rightarrow> string) \<Rightarrow> bool \<Rightarrow> flatMap \<Rightarrow> 'f json \<Rightarrow> string \<Rightarrow> error option \<times> flatMap"
and assign ::
  "('f \<Rightarrow> string) \<Rightarrow> flatMap \<Rightarrow> string \<Rightarrow> 'f json \<Rightarrow> error option \<times> flatMap"
and flattenObject ::
  "('f \<Rightarrow> string) \<Rightarrow> bool \<Rightarrow> flatMap \<Rightarrow> (string \<times> 'f json) list \<Rightarrow> string \<Rightarrow> flatMap"
and flattenArray ::
  "('f \<Rightarrow> string) \<Rightarrow> flatMap \<Rightarrow> 'f json list \<Rightarrow> string \<Rightarrow> flatMap"
where
  "flatten fmtFloat isTop flatMap (Object kvs) prefix =
     (None, flattenObject fmtFloat isTop flatMap kvs prefix)"
| "flatten fmtFloat isTop flatMap (Array vs) prefix =
     (None, flattenArray fmtFloat flatMap vs prefix)"
| "flatten fmtFloat isTop flatMap (Scalar x) prefix = (Some InvalidObjectType, flatMap)"
| "assign fmtFloat flatMap newKey (Object kvs) =
     flatten fmtFloat False flatMap (Object kvs) newKey"
| "assign fmtFloat flatMap newKey (Array vs) =
     flatten fmtFloat False flatMap (Array vs) newKey"
| "assign fmtFloat flatMap newKey (Scalar x) =
     (None, flatMap(newKey \<mapsto> index flatMap newKey @ [Sprintv fmtFloat x]))"
| "flattenObject fmtFloat isTop flatMap [] prefix = flatMap"
| "flattenObject fmtFloat isTop flatMap ((k, v) # kvs) prefix =
     flattenObject fmtFloat isTop
       (snd (assign fmtFloat flatMap (if isTop then k else prefix @ ''.'' @ k) v)) kvs prefix"
| "flattenArray fmtFloat flatMap [] prefix = flatMap"
| "flattenArray fmtFloat flatMap (v # vs) prefix =
     flattenArray fmtFloat (snd (assign fmtFloat flatMap (prefix @ ''[]'') v)) vs prefix"

subsection \<open>Requests, the library and the call log\<close>

text \<open>The fields of \<^verbatim>\<open>http.Request\<close> that the decoder reads. \<open>Header\<close> maps a canonical
  header name to its values.\<close>

record Request =
  Host :: string
  ReqMethod :: string
  ReqRequestURI :: string
  Header :: "string \<rightharpoonup> string list"

text \<open>\<^verbatim>\<open>req.Header.Get\<close>: the first value of the header, or the empty string.\<close>

definition HeaderGet :: "Request \<Rightarrow> string \<Rightarrow> string" where
  "HeaderGet req name =
     (case Header req name of None \<Rightarrow> [] | Some [] \<Rightarrow> [] | Some (v # vs) \<Rightarrow> v)"

text \<open>What the decoder reads of a parsed \<^verbatim>\<open>url.URL\<close>: its path and the values of
  \<^verbatim>\<open>Query()\<close>.\<close>

record URL =
  Path :: string
  Query :: "(string \<times> string list) list"

text \<open>
  The library functions the decoder calls. \<open>Unmarshal\<close>, \<open>ParseRequestURI\<close> and
  \<open>ParseQuery\<close> give \<^term>\<open>None\<close> for a non-nil error. \<open>FindAllStringSubmatch re s\<close> is
  \<^verbatim>\<open>regexp.MustCompile(re).FindAllStringSubmatch(s, -1)\<close>, and \<^term>\<open>None\<close> when
  \<^verbatim>\<open>MustCompile\<close> panics; \<^verbatim>\<open>Match\<close> of the same expression holds when the list of matches
  is not empty.
\<close>

record 'f GoLib =
  ToLower :: "string \<Rightarrow> string"
  FormatFloat :: "'f \<Rightarrow> string"
  Unmarshal :: "string \<Rightarrow> 'f json option"
  ParseRequestURI :: "string \<Rightarrow> URL option"
  ParseQuery :: "string \<Rightarrow> (string \<times> string list) list option"
  FindAllStringSubmatch :: "string \<Rightarrow> string \<Rightarrow> string list list option"

text \<open>The \<^verbatim>\<open>Entry\<close> appended to \<^verbatim>\<open>callLog\<close> (lines 403-411); the struct is declared outside
  \<^verbatim>\<open>proxy.go\<close>, its fields are those of the literal.\<close>

record Entry =
  Region :: string
  EntryType :: string
  Service :: string
  EntryMethod :: string
  Parameters :: flatMap
  URIParameters :: "string \<rightharpoonup> string"
  FinalHTTPStatusCode :: int

subsection \<open>The request decoder (lines 270-414)\<close>

text \<open>Lines 281-285: the last definition with the endpoint prefix, else the zero value.\<close>

fun selectServiceDefinition ::
  "ServiceDefinition list \<Rightarrow> string \<Rightarrow> ServiceDefinition \<Rightarrow> ServiceDefinition" where
  "selectServiceDefinition [] endpointPrefix serviceDef = serviceDef"
| "selectServiceDefinition (serviceDefinition # rest) endpointPrefix serviceDef =
     selectServiceDefinition rest endpointPrefix
       (if EndpointPrefix (Metadata serviceDefinition) = endpointPrefix
        then serviceDefinition else serviceDef)"

text \<open>\<^verbatim>\<open>serviceDef.Operations[action].Input\<close>.\<close>

definition operationInput :: "ServiceDefinition \<Rightarrow> string \<Rightarrow> ServiceStructure" where
  "operationInput serviceDef action =
     Input (case map_of (Operations serviceDef) action of
              None \<Rightarrow> zeroServiceOperation | Some operation \<Rightarrow> operation)"

text \<open>Lines 313-315: the placeholder names are bound to the captured segments.\<close>

fun bindURIParams ::
  "(string \<rightharpoonup> string) \<Rightarrow> string list \<Rightarrow> string list \<Rightarrow> (string \<rightharpoonup> string)" where
  "bindURIParams uriparams (t # ts) (m # ms) = bindURIParams (uriparams(t \<mapsto> m)) ts ms"
| "bindURIParams uriparams ts ms = uriparams"

text \<open>
  Lines 303-318, the loop over the operations of a rest-json service; it carries
  \<open>action\<close> and \<open>uriparams\<close>. \<open>pathRegex\<close> is the expression of line 305. It is compiled
  before the method is compared, so a template that gives no regular expression panics
  there.
\<close>

definition pathRegex :: "string \<Rightarrow> string" where
  "pathRegex template = ''^'' @ ReplaceAllString rePlaceholder template ''([^/]+)'' @ ''$''"

fun pathPart ::
  "'f GoLib \<Rightarrow> Request \<Rightarrow> string \<Rightarrow> (string \<times> ServiceOperation) list \<Rightarrow>
     string \<times> (string \<rightharpoonup> string) \<Rightarrow> panic + string \<times> (string \<rightharpoonup> string)" where
  "pathPart lib req urlPath [] (action, uriparams) = Inr (action, uriparams)"
| "pathPart lib req urlPath ((operationName, operation) # rest) (action, uriparams) =
     (let templateMatches = FindAllString rePlaceholder (RequestURI (Http operation));
          regexStr = pathRegex (RequestURI (Http operation))
      in case FindAllStringSubmatch lib regexStr urlPath of
           None \<Rightarrow> Inl RegexpMustCompile
         | Some pathMatches \<Rightarrow>
             if Method (Http operation) = ReqMethod req \<and> pathMatches \<noteq> [] then
               pathPart lib req urlPath rest
                 (operationName,
                  if length pathMatches > 0 \<and>
                     int (length templateMatches) = int (length (hd pathMatches)) - 1
                  then bindURIParams uriparams (map placeholderName templateMatches)
                         (tl (hd pathMatches))
                  else uriparams)
             else pathPart lib req urlPath rest (action, uriparams))"

text \<open>
  Lines 321-335 and 376-392, the loop over the query or form values; it carries
  \<open>params\<close>. For the form values of lines 376-392 the caller leaves out the keys
  \<^verbatim>\<open>Action\<close> and \<^verbatim>\<open>Version\<close>, which the source skips inside the loop.
\<close>

fun queryPart ::
  "'f GoLib \<Rightarrow> nat \<Rightarrow> ServiceStructure \<Rightarrow> (string \<rightharpoonup> ServiceStructure) \<Rightarrow>
     (string \<times> string list) list \<Rightarrow> flatMap \<Rightarrow> (panic + flatMap) option" where
  "queryPart lib fuel input shapes [] params = Some (Inr params)"
| "queryPart lib fuel input shapes ((k, v) # rest) params =
     (let normalizedK = normalizeKey k
      in case resolvePropertyName (ToLower lib) fuel input normalizedK [] [] shapes of
           None \<Rightarrow> None
         | Some (Inl p) \<Rightarrow> Some (Inl p)
         | Some (Inr resolvedPropertyName) \<Rightarrow>
             (let normalizedK' = (if resolvedPropertyName \<noteq> [] then resolvedPropertyName
                                  else normalizedK)
              in queryPart lib fuel input shapes rest
                   (if length (index params normalizedK') > 0
                    then params(normalizedK' \<mapsto> index params normalizedK' @ v)
                    else params(normalizedK' \<mapsto> v))))"

text \<open>
  Lines 290-394, the three protocols. The result is \<^term>\<open>None\<close> when the resolver runs
  out of fuel, a panic, \<^term>\<open>Inr None\<close> where the source returns early (no entry is
  logged), and else the action, the parameters and the URI parameters. What \<open>flatten\<close>
  returns is dropped at both calls (lines 345 and 356).
\<close>

definition dispatchProtocol ::
  "'f GoLib \<Rightarrow> nat \<Rightarrow> ServiceDefinition \<Rightarrow> Request \<Rightarrow> string \<Rightarrow>
     (panic + (string \<times> flatMap \<times> (string \<rightharpoonup> string)) option) option" where
  "dispatchProtocol lib fuel serviceDef req body =
     (if Protocol (Metadata serviceDef) = ''rest-json'' then
        (case ParseRequestURI lib (ReqRequestURI req) of
           None \<Rightarrow> Some (Inr None)
         | Some urlobj \<Rightarrow>
             (case pathPart lib req (Path urlobj) (Operations serviceDef) (''*'', Map.empty) of
                Inl p \<Rightarrow> Some (Inl p)
              | Inr (action, uriparams) \<Rightarrow>
                  (case queryPart lib fuel (operationInput serviceDef action)
                          (Shapes serviceDef) (Query urlobj) Map.empty of
                     None \<Rightarrow> None
                   | Some (Inl p) \<Rightarrow> Some (Inl p)
                   | Some (Inr params) \<Rightarrow>
                       if length body > 0 then
                         (case Unmarshal lib body of
                            None \<Rightarrow> Some (Inr None)
                          | Some bodyJSON \<Rightarrow>
                              Some (Inr (Some (action,
                                snd (flatten (FormatFloat lib) True params bodyJSON []),
                                uriparams))))
                       else Some (Inr (Some (action, params, uriparams))))))
      else if Protocol (Metadata serviceDef) = ''json'' then
        (case Unmarshal lib body of
           None \<Rightarrow> Some (Inr None)
         | Some bodyJSON \<Rightarrow>
             (let amzTargetHeader = HeaderGet req ''X-Amz-Target''
              in if amzTargetHeader \<noteq> [] then
                   (if length (Split amzTargetHeader (CHR ''.'')) \<le> 1
                    then Some (Inl IndexOutOfRange)
                    else Some (Inr (Some (Split amzTargetHeader (CHR ''.'') ! 1,
                           snd (flatten (FormatFloat lib) True Map.empty bodyJSON []),
                           Map.empty))))
                 else Some (Inr None)))
      else if Protocol (Metadata serviceDef) = ''ec2'' \<or>
              Protocol (Metadata serviceDef) = ''query'' then
        (case ParseQuery lib body of
           None \<Rightarrow> Some (Inr None)
         | Some vals \<Rightarrow>
             if length (case map_of vals ''Action'' of None \<Rightarrow> [] | Some vs \<Rightarrow> vs) \<noteq> 1 \<or>
                length (case map_of vals ''Version'' of None \<Rightarrow> [] | Some vs \<Rightarrow> vs) \<noteq> 1
             then Some (Inr None)
             else
               (let action = hd (case map_of vals ''Action'' of None \<Rightarrow> [] | Some vs \<Rightarrow> vs)
                in if Type (operationInput serviceDef action) = ''structure'' then
                     (case queryPart lib fuel (operationInput serviceDef action)
                             (Shapes serviceDef)
                             (filter (\<lambda>kv. fst kv \<noteq> ''Action'' \<and> fst kv \<noteq> ''Version'') vals)
                             Map.empty of
                        None \<Rightarrow> None
                      | Some (Inl p) \<Rightarrow> Some (Inl p)
                      | Some (Inr params) \<Rightarrow> Some (Inr (Some (action, params, Map.empty))))
                   else Some (Inr (Some (action, Map.empty, Map.empty)))))
      else Some (Inr (Some (''*'', Map.empty, Map.empty))))"

text \<open>Lines 277-280: the label before \<^verbatim>\<open>amazonaws\<close>, or the one before it when the host
  has more than three labels.\<close>

definition endpointPrefixOf :: "string list \<Rightarrow> string" where
  "endpointPrefixOf hostSplit =
     (if length hostSplit > 3 then hostSplit ! (length hostSplit - 4)
      else hostSplit ! (length hostSplit - 3))"

text \<open>Lines 396-401.\<close>

definition regionOf :: "string \<Rightarrow> string" where
  "regionOf host = (case FindRegion host of Some g \<Rightarrow> g | None \<Rightarrow> ''us-east-1'')"

text \<open>
  \<open>handleAWSRequest\<close> takes the two globals \<^verbatim>\<open>serviceDefinitions\<close> and \<^verbatim>\<open>callLog\<close> as
  arguments and returns the call log. The index expressions of lines 276 and 277
  panic on a host of fewer labels than they read. \<^verbatim>\<open>handleLoggedCall\<close> (line 413) is
  declared outside \<^verbatim>\<open>proxy.go\<close> and is not part of the model.
\<close>

definition handleAWSRequest ::
  "'f GoLib \<Rightarrow> nat \<Rightarrow> ServiceDefinition list \<Rightarrow> Request \<Rightarrow> string \<Rightarrow> int \<Rightarrow>
     Entry list \<Rightarrow> (panic + Entry list) option" where
  "handleAWSRequest lib fuel serviceDefinitions req body respCode callLog =
     (let host = Host req;
          hostSplit = Split host (CHR ''.'')
      in if hostSplit ! (length hostSplit - 1) = ''com'' then
           (if length hostSplit < 2 then Some (Inl IndexOutOfRange)
            else if hostSplit ! (length hostSplit - 2) = ''amazonaws'' then
              (if length hostSplit < 3 then Some (Inl IndexOutOfRange)
               else
                 (let serviceDef = selectServiceDefinition serviceDefinitions
                                     (endpointPrefixOf hostSplit) zeroServiceDefinition
                  in case dispatchProtocol lib fuel serviceDef req body of
                       None \<Rightarrow> None
                     | Some (Inl p) \<Rightarrow> Some (Inl p)
                     | Some (Inr None) \<Rightarrow> Some (Inr callLog)
                     | Some (Inr (Some (action, params, uriparams))) \<Rightarrow>
                         Some (Inr (callLog @
                           [\<lparr>Region = regionOf host, EntryType = ''ProxyCall'',
                             Service = ServiceID (Metadata serviceDef),
                             EntryMethod = action, Parameters = params,
                             URIParameters = uriparams,
                             FinalHTTPStatusCode = respCode\<rparr>]))))
            else Some (Inr callLog))
         else Some (Inr callLog))"

text \<open>Lines 155-166, the handler installed by \<^verbatim>\<open>createProxy\<close>: only a host that matches
  the expression of line 158 reaches the decoder, with the status code 200.\<close>

definition onRequest ::
  "'f GoLib \<Rightarrow> nat \<Rightarrow> ServiceDefinition list \<Rightarrow> Request \<Rightarrow> string \<Rightarrow>
     Entry list \<Rightarrow> (panic + Entry list) option" where
  "onRequest lib fuel serviceDefinitions req body callLog =
     (if isAWSHostname (Host req)
      then handleAWSRequest lib fuel serviceDefinitions req body 200 callLog
      else Some (Inr callLog))"

subsection \<open>Notions used to state the properties\<close>

text \<open>The wire name of a structure member \<open>v\<close> declared under the name \<open>k\<close>, in the
  words of the specification: the query name when set, else the location name when
  set, else the member's own name.\<close>

definition wireName :: "string \<Rightarrow> ServiceStructure \<Rightarrow> string" where
  "wireName k v =
     (if QueryName v \<noteq> [] then QueryName v
      else if LocationName v \<noteq> [] then LocationName v
      else k)"


text \<open>A regular expression (given by its matcher) has a match somewhere in a string.\<close>

fun hasMatch :: "(string \<Rightarrow> nat) \<Rightarrow> string \<Rightarrow> bool" where
  "hasMatch re [] = False"
| "hasMatch re (c # cs) = (0 < re (c # cs) \<or> hasMatch re cs)"

text \<open>
  The flattening in the words of the specification: the values found in a decoded
  JSON value reached under the path \<open>p\<close>, each with its path, in the order of the
  traversal; \<open>topEntries\<close> are those of a top-level object, whose keys are roots
  without a prefix; \<open>accumulate\<close> appends each value to the entry of its path.
\<close>

fun entries :: "('f \<Rightarrow> string) \<Rightarrow> string \<Rightarrow> 'f json \<Rightarrow> (string \<times> string) list" where
  "entries fmtFloat p (Scalar x) = [(p, Sprintv fmtFloat x)]"
| "entries fmtFloat p (Array vs) = concat (map (entries fmtFloat (p @ ''[]'')) vs)"
| "entries fmtFloat p (Object kvs) =
     concat (map (\<lambda>kv. entries fmtFloat (p @ ''.'' @ fst kv) (snd kv)) kvs)"

definition topEntries :: "('f \<Rightarrow> string) \<Rightarrow> (string \<times> 'f json) list \<Rightarrow> (string \<times> string) list" where
  "topEntries fmtFloat kvs = concat (map (\<lambda>kv. entries fmtFloat (fst kv) (snd kv)) kvs)"

fun accumulate :: "flatMap \<Rightarrow> (string \<times> string) list \<Rightarrow> flatMap" where
  "accumulate m [] = m"
| "accumulate m ((p, s) # es) = accumulate (m(p \<mapsto> index m p @ [s])) es"

subsection \<open>A fragment of the library for the concrete requests\<close>

text \<open>\<^verbatim>\<open>strings.ToLower\<close> on a string of ASCII bytes.\<close>

definition toLowerASCII :: "string \<Rightarrow> string" where
  "toLowerASCII s =
     map (\<lambda>c. if CHR ''A'' \<le> c \<and> c \<le> CHR ''Z'' then char_of (of_char c + (32::nat)) else c) s"

text \<open>
  The values of the library functions on the inputs of the concrete requests below,
  with \<^typ>\<open>nat\<close> for the numbers: a number below ten prints as its digit; the body \<^verbatim>\<open>{}\<close>
  decodes to the empty object and the body \<^verbatim>\<open>5\<close> to a number; the request URIs \<^verbatim>\<open>/\<close>, \<^verbatim>\<open>/tags\<close> and
  \<^verbatim>\<open>/functions\<close> parse to that path with no query, and \<^verbatim>\<open>/?a=b\<close> to the path \<^verbatim>\<open>/\<close> with one
  value; the form \<^verbatim>\<open>Action=DescribeInstances&Version=2016-11-15&a=b\<close> parses to its three
  values; the expression \<^verbatim>\<open>^/functions$\<close> matches the string \<^verbatim>\<open>/functions\<close> and no other.
  On every other input the last four functions answer with the error.
\<close>

definition goFragment :: "nat GoLib" where
  "goFragment =
     \<lparr>ToLower = toLowerASCII,
      FormatFloat = (\<lambda>n. [char_of (48 + n)]),
      Unmarshal = (\<lambda>body. if body = ''{}'' then Some (Object [])
                            else if body = ''5'' then Some (Scalar (Float64 5))
                            else None),
      ParseRequestURI = (\<lambda>uri. if uri = ''/'' \<or> uri = ''/tags'' \<or> uri = ''/functions''
                                 then Some \<lparr>Path = uri, Query = []\<rparr>
                                 else if uri = ''/?a=b''
                                 then Some \<lparr>Path = ''/'', Query = [(''a'', [''b''])]\<rparr>
                                 else None),
      ParseQuery = (\<lambda>body. if body = ''Action=DescribeInstances&Version=2016-11-15&a=b''
                             then Some [(''Action'', [''DescribeInstances'']),
                                        (''Version'', [''2016-11-15'']),
                                        (''a'', [''b''])]
                             else None),
      FindAllStringSubmatch = (\<lambda>re s. if re = ''^/functions$''
                                       then Some (if s = ''/functions'' then [[''/functions'']] else [])
                                       else None)\<rparr>"

subsection \<open>Concrete services and shapes\<close>

definition emptyMetadata :: ServiceDefinitionMetadata where
  "emptyMetadata = Metadata zeroServiceDefinition"

text \<open>A structure whose member \<^verbatim>\<open>Filters\<close> is a list of structures with a member \<^verbatim>\<open>Name\<close>
  of location name \<^verbatim>\<open>FilterName\<close>.\<close>

definition filtersShape :: ServiceStructure where
  "filtersShape =
     ServiceStructure [] ''structure'' None
       [(''Filters'',
         ServiceStructure [] ''list''
           (Some (ServiceStructure [] ''structure'' None
                    [(''Name'', ServiceStructure [] ''string'' None [] ''FilterName'' [])] [] []))
           [] [] [])] [] []"


text \<open>A structure with an integer member \<^verbatim>\<open>MaxItems\<close> and a member \<^verbatim>\<open>Tags\<close> that is a list
  of strings, with no override.\<close>

definition plainExampleShape :: ServiceStructure where
  "plainExampleShape =
     ServiceStructure [] ''structure'' None
       [(''MaxItems'', ServiceStructure [] ''integer'' None [] [] []),
        (''Tags'',
         ServiceStructure [] ''list''
           (Some (ServiceStructure [] ''string'' None [] [] [])) [] [] [])] [] []"

text \<open>A structure whose member \<^verbatim>\<open>ab\<close> is a list of lists of strings.\<close>

definition nestedListShape :: ServiceStructure where
  "nestedListShape =
     ServiceStructure [] ''structure'' None
       [(''ab'',
         ServiceStructure [] ''list''
           (Some (ServiceStructure [] ''list''
                    (Some (ServiceStructure [] ''string'' None [] [] [])) [] [] []))
           [] [] [])] [] []"

text \<open>A structure with two string members whose names differ in letter case only.\<close>

definition caseShape :: ServiceStructure where
  "caseShape =
     ServiceStructure [] ''structure'' None
       [(''ab'', ServiceStructure [] ''string'' None [] [] []),
        (''AB'', ServiceStructure [] ''string'' None [] [] [])] [] []"

text \<open>A rest-json service with the one operation \<^verbatim>\<open>GET /functions\<close>.\<close>

definition restJsonService :: ServiceDefinition where
  "restJsonService =
     \<lparr>Version = ''2.0'',
      Metadata = emptyMetadata\<lparr>EndpointPrefix := ''lambda'', Protocol := ''rest-json'',
                                ServiceID := ''Lambda''\<rparr>,
      Operations =
        [(''ListFunctions'',
          \<lparr>Http = \<lparr>Method = ''GET'', RequestURI = ''/functions'', ResponseCode = 200\<rparr>,
           Input = plainExampleShape, Output = zeroServiceStructure\<rparr>)],
      Shapes = Map.empty\<rparr>"

text \<open>A json service with the one operation \<^verbatim>\<open>ListTables\<close>.\<close>

definition jsonService :: ServiceDefinition where
  "jsonService =
     \<lparr>Version = ''2.0'',
      Metadata = emptyMetadata\<lparr>EndpointPrefix := ''dynamodb'', Protocol := ''json'',
                                ServiceID := ''DynamoDB''\<rparr>,
      Operations =
        [(''ListTables'',
          \<lparr>Http = \<lparr>Method = ''POST'', RequestURI = ''/'', ResponseCode = 0\<rparr>,
           Input = zeroServiceStructure, Output = zeroServiceStructure\<rparr>)],
      Shapes = Map.empty\<rparr>"

text \<open>An ec2 service with the one operation \<^verbatim>\<open>DescribeInstances\<close>.\<close>

definition ec2Service :: ServiceDefinition where
  "ec2Service =
     \<lparr>Version = ''2.0'',
      Metadata = emptyMetadata\<lparr>EndpointPrefix := ''ec2'', Protocol := ''ec2'',
                                ServiceID := ''EC2''\<rparr>,
      Operations =
        [(''DescribeInstances'',
          \<lparr>Http = \<lparr>Method = ''POST'', RequestURI = ''/'', ResponseCode = 0\<rparr>,
           Input = filtersShape, Output = zeroServiceStructure\<rparr>)],
      Shapes = Map.empty\<rparr>"

section \<open>Properties\<close>

subsection \<open>Splitting a host name\<close>

lemma Split_nonempty: "Split s sep \<noteq> []"
  by (induction s) (auto split: list.splits)

lemma Split_append: "Split (p @ sep # q) sep = Split p sep @ Split q sep"
proof (induction p)
  case Nil
  show ?case by simp
next
  case (Cons c p)
  obtain w ws where "Split p sep = w # ws"
    using Split_nonempty [of p sep] by (cases "Split p sep") auto
  with Cons show ?case by simp
qed

lemma Split_no_sep: "sep \<notin> set s \<Longrightarrow> Split s sep = [s]"
  by (induction s) auto

lemma Split_amazonaws_com:
  "Split (p @ ''.amazonaws.com'') (CHR ''.'') = Split p (CHR ''.'') @ [''amazonaws'', ''com'']"
proof -
  have "Split (p @ CHR ''.'' # ''amazonaws.com'') (CHR ''.'')
        = Split p (CHR ''.'') @ Split ''amazonaws.com'' (CHR ''.'')"
    by (rule Split_append)
  moreover have "Split ''amazonaws.com'' (CHR ''.'') = [''amazonaws'', ''com'']"
    by simp
  ultimately show ?thesis by simp
qed

lemma Split_cn_last:
  "Split (p @ ''amazonaws.com.cn'') (CHR ''.'')
     = Split (p @ ''amazonaws.com'') (CHR ''.'') @ [''cn'']"
proof -
  have "Split ((p @ ''amazonaws.com'') @ CHR ''.'' # ''cn'') (CHR ''.'')
        = Split (p @ ''amazonaws.com'') (CHR ''.'') @ Split ''cn'' (CHR ''.'')"
    by (rule Split_append)
  then show ?thesis by simp
qed

subsection \<open>The decoder on a host under \<^verbatim>\<open>amazonaws.com\<close>\<close>

text \<open>A host \<open>p.amazonaws.com\<close> passes the test of line 276 and has at least three
  labels: the decoder selects a definition, decodes, and logs unless the decoding
  returns early.\<close>

lemma handleAWSRequest_amazonaws_com:
  assumes "Host req = p @ ''.amazonaws.com''"
  shows "handleAWSRequest lib fuel serviceDefinitions req body respCode callLog =
     (case dispatchProtocol lib fuel
             (selectServiceDefinition serviceDefinitions
                (endpointPrefixOf (Split (Host req) (CHR ''.''))) zeroServiceDefinition)
             req body of
        None \<Rightarrow> None
      | Some (Inl e) \<Rightarrow> Some (Inl e)
      | Some (Inr None) \<Rightarrow> Some (Inr callLog)
      | Some (Inr (Some (action, params, uriparams))) \<Rightarrow>
          Some (Inr (callLog @
            [\<lparr>Region = regionOf (Host req), EntryType = ''ProxyCall'',
              Service = ServiceID (Metadata
                (selectServiceDefinition serviceDefinitions
                   (endpointPrefixOf (Split (Host req) (CHR ''.''))) zeroServiceDefinition)),
              EntryMethod = action, Parameters = params, URIParameters = uriparams,
              FinalHTTPStatusCode = respCode\<rparr>])))"
proof -
  obtain w ws where sp: "Split p (CHR ''.'') = w # ws"
    using Split_nonempty [of p "CHR ''.''"] by (cases "Split p (CHR ''.'')") auto
  have hs: "Split (Host req) (CHR ''.'') = (w # ws) @ [''amazonaws'', ''com'']"
    using assms sp by (simp add: Split_amazonaws_com)
  have l: "length (Split (Host req) (CHR ''.'')) = length ws + 3"
    using hs by simp
  have a: "Split (Host req) (CHR ''.'') ! (length ws + 2) = ''com''"
    unfolding hs by (simp add: nth_append)
  have b: "Split (Host req) (CHR ''.'') ! (length ws + 1) = ''amazonaws''"
    unfolding hs by (simp add: nth_append)
  show ?thesis
    unfolding handleAWSRequest_def Let_def using l a b by simp
qed

lemma selectServiceDefinition_none:
  "\<forall>d \<in> set serviceDefinitions. EndpointPrefix (Metadata d) \<noteq> endpointPrefix \<Longrightarrow>
   selectServiceDefinition serviceDefinitions endpointPrefix serviceDef = serviceDef"
  by (induction serviceDefinitions arbitrary: serviceDef) auto

lemma dispatchProtocol_zero:
  "dispatchProtocol lib fuel zeroServiceDefinition req body = Some (Inr (Some (''*'', Map.empty, Map.empty)))"
  by (simp add: dispatchProtocol_def zeroServiceDefinition_def)

lemma regionOf_ex1: "regionOf ''unknown.us-east-1.amazonaws.com'' = ''us-east-1''"
  by (simp add: regionOf_def regionGroup_def HasSuffix_def)

lemma regionOf_ex2: "regionOf ''lambda.us-east-1.amazonaws.com'' = ''us-east-1''"
  by (simp add: regionOf_def regionGroup_def HasSuffix_def)

lemma regionOf_ex3: "regionOf ''dynamodb.us-east-1.amazonaws.com'' = ''us-east-1''"
  by (simp add: regionOf_def regionGroup_def HasSuffix_def)

subsection \<open>The resolver on short search keys\<close>

text \<open>
  C9. The claim is that the resolver returns a result, without a run-time fault, for
  every search key, the empty key and the keys of one byte included. The code does not:
  line 417 slices \<^verbatim>\<open>searchProp[len(searchProp)-2:]\<close> before any test of the length
  (line 452 guards the same slice of the wire path with \<^verbatim>\<open>len(locationPath) > 2\<close>), so
  a key shorter than two bytes panics, whatever the shape and the table. The decoder
  passes every query key to the resolver: a rest-json request with the query \<^verbatim>\<open>a=b\<close>,
  and an ec2 form with the field \<^verbatim>\<open>a=b\<close>, panic and log nothing.
\<close>

theorem short_search_key_panics:
  "resolvePropertyName lower (Suc fuel) obj [] path locationPath shapes
     = Some (Inl SliceBoundsOutOfRange) \<and>
   resolvePropertyName lower (Suc fuel) obj [c] path locationPath shapes
     = Some (Inl SliceBoundsOutOfRange) \<and>
   handleAWSRequest goFragment (Suc fuel) [restJsonService]
     \<lparr>Host = ''lambda.us-east-1.amazonaws.com'', ReqMethod = ''GET'',
      ReqRequestURI = ''/?a=b'', Header = Map.empty\<rparr> [] 200 []
     = Some (Inl SliceBoundsOutOfRange) \<and>
   handleAWSRequest goFragment (Suc fuel) [ec2Service]
     \<lparr>Host = ''ec2.us-east-1.amazonaws.com'', ReqMethod = ''POST'',
      ReqRequestURI = ''/'', Header = Map.empty\<rparr>
     ''Action=DescribeInstances&Version=2016-11-15&a=b'' 200 []
     = Some (Inl SliceBoundsOutOfRange)"
proof (intro conjI)
  show "resolvePropertyName lower (Suc fuel) obj [] path locationPath shapes
          = Some (Inl SliceBoundsOutOfRange)"
    by simp
  show "resolvePropertyName lower (Suc fuel) obj [c] path locationPath shapes
          = Some (Inl SliceBoundsOutOfRange)"
    by simp
  show "handleAWSRequest goFragment (Suc fuel) [restJsonService]
          \<lparr>Host = ''lambda.us-east-1.amazonaws.com'', ReqMethod = ''GET'',
           ReqRequestURI = ''/?a=b'', Header = Map.empty\<rparr> [] 200 []
          = Some (Inl SliceBoundsOutOfRange)"
    by (simp add: handleAWSRequest_def dispatchProtocol_def goFragment_def
        restJsonService_def emptyMetadata_def zeroServiceDefinition_def endpointPrefixOf_def
        pathRegex_def rePlaceholder_def operationInput_def zeroServiceOperation_def
        normalizeKey_def reDotNumber_def reDotMemberNumber_def)
  show "handleAWSRequest goFragment (Suc fuel) [ec2Service]
          \<lparr>Host = ''ec2.us-east-1.amazonaws.com'', ReqMethod = ''POST'',
           ReqRequestURI = ''/'', Header = Map.empty\<rparr>
          ''Action=DescribeInstances&Version=2016-11-15&a=b'' 200 []
          = Some (Inl SliceBoundsOutOfRange)"
    by (simp add: handleAWSRequest_def dispatchProtocol_def goFragment_def ec2Service_def
        emptyMetadata_def zeroServiceDefinition_def endpointPrefixOf_def operationInput_def
        zeroServiceOperation_def normalizeKey_def reDotNumber_def reDotMemberNumber_def
        filtersShape_def)
qed

subsection \<open>A host whose prefix names no loaded service\<close>

text \<open>
  C1, as the claim states it: a request whose host passes the suffix test and whose
  endpoint prefix is that of no loaded definition appends nothing to the call log. The
  code appends an entry: with only a DynamoDB definition loaded, the request to
  \<^verbatim>\<open>unknown.us-east-1.amazonaws.com\<close> is logged, with an empty service and the action \<^verbatim>\<open>*\<close>.
\<close>

theorem unmatched_prefix_counterexample:
  "onRequest goFragment 0 [jsonService]
     \<lparr>Host = ''unknown.us-east-1.amazonaws.com'', ReqMethod = ''GET'',
      ReqRequestURI = ''/'', Header = Map.empty\<rparr> [] []
   = Some (Inr [\<lparr>Region = ''us-east-1'', EntryType = ''ProxyCall'', Service = [],
         EntryMethod = ''*'', Parameters = Map.empty, URIParameters = Map.empty,
         FinalHTTPStatusCode = 200\<rparr>])"
  by (simp add: onRequest_def isAWSHostname_def HasSuffix_def handleAWSRequest_def
      endpointPrefixOf_def jsonService_def emptyMetadata_def zeroServiceDefinition_def
      dispatchProtocol_def regionOf_ex1)


text \<open>
  C1, amended: for a host \<open>p.amazonaws.com\<close> whose endpoint prefix is that of no loaded
  definition, the decoder keeps the zero definition, runs no protocol branch, and
  appends one entry: the region of the host, an empty service, the action \<^verbatim>\<open>*\<close>, no
  parameters and no URI parameters.
\<close>

theorem unmatched_prefix_is_logged:
  assumes "Host req = p @ ''.amazonaws.com''"
    and "\<forall>d \<in> set serviceDefinitions.
           EndpointPrefix (Metadata d) \<noteq> endpointPrefixOf (Split (Host req) (CHR ''.''))"
  shows "handleAWSRequest lib fuel serviceDefinitions req body respCode callLog =
     Some (Inr (callLog @
       [\<lparr>Region = regionOf (Host req), EntryType = ''ProxyCall'', Service = [],
         EntryMethod = ''*'', Parameters = Map.empty, URIParameters = Map.empty,
         FinalHTTPStatusCode = respCode\<rparr>]))"
proof -
  have "selectServiceDefinition serviceDefinitions
          (endpointPrefixOf (Split (Host req) (CHR ''.''))) zeroServiceDefinition
        = zeroServiceDefinition"
    using assms(2) by (rule selectServiceDefinition_none)
  then show ?thesis
    using handleAWSRequest_amazonaws_com [OF assms(1), of lib fuel serviceDefinitions body respCode callLog]
    by (simp add: dispatchProtocol_zero) (simp add: zeroServiceDefinition_def)
qed

theorem unmatched_prefix_is_logged_witness:
  "Host \<lparr>Host = ''unknown.us-east-1.amazonaws.com'', ReqMethod = ''GET'',
      ReqRequestURI = ''/'', Header = Map.empty\<rparr> = ''unknown.us-east-1'' @ ''.amazonaws.com'' \<and>
   handleAWSRequest goFragment 0 [jsonService]
     \<lparr>Host = ''unknown.us-east-1.amazonaws.com'', ReqMethod = ''GET'',
      ReqRequestURI = ''/'', Header = Map.empty\<rparr> [] 200 []
   = Some (Inr [\<lparr>Region = ''us-east-1'', EntryType = ''ProxyCall'', Service = [],
         EntryMethod = ''*'', Parameters = Map.empty, URIParameters = Map.empty,
         FinalHTTPStatusCode = 200\<rparr>])"
proof -
  let ?req = "\<lparr>Host = ''unknown.us-east-1.amazonaws.com'', ReqMethod = ''GET'',
      ReqRequestURI = ''/'', Header = Map.empty\<rparr>"
  have h: "Host ?req = ''unknown.us-east-1'' @ ''.amazonaws.com''" by simp
  have n: "\<forall>d \<in> set [jsonService].
           EndpointPrefix (Metadata d) \<noteq> endpointPrefixOf (Split (Host ?req) (CHR ''.''))"
    by (simp add: jsonService_def emptyMetadata_def zeroServiceDefinition_def endpointPrefixOf_def)
  show ?thesis
    using unmatched_prefix_is_logged [OF h n, of goFragment 0 "[]" 200 "[]"] h
    by (simp add: regionOf_ex1)
qed


subsection \<open>A rest-json request that matches no operation\<close>

lemma pathPart_no_match:
  assumes "\<forall>kv \<in> set operations. \<exists>ms.
             FindAllStringSubmatch lib (pathRegex (RequestURI (Http (snd kv)))) urlPath = Some ms \<and>
             \<not> (Method (Http (snd kv)) = ReqMethod req \<and> ms \<noteq> [])"
  shows "pathPart lib req urlPath operations (action, uriparams) = Inr (action, uriparams)"
  using assms
proof (induction operations)
  case Nil
  show ?case by simp
next
  case (Cons kv operations)
  obtain operationName operation where kv: "kv = (operationName, operation)"
    by (cases kv)
  from Cons.prems obtain ms where
    ms: "FindAllStringSubmatch lib (pathRegex (RequestURI (Http operation))) urlPath = Some ms"
    and no: "\<not> (Method (Http operation) = ReqMethod req \<and> ms \<noteq> [])"
    using kv by auto
  have "pathPart lib req urlPath operations (action, uriparams) = Inr (action, uriparams)"
    using Cons by simp
  then show ?case
    using kv ms no by auto
qed

text \<open>
  C2, as the claim states it: a rest-json request that no operation matches by method
  and path is a decode failure, and no entry is logged for it. The code logs one: with
  the one operation \<^verbatim>\<open>GET /functions\<close> loaded, the request \<^verbatim>\<open>GET /tags\<close> is logged with
  the action \<^verbatim>\<open>*\<close>.
\<close>

theorem unmatched_operation_counterexample:
  "handleAWSRequest goFragment 0 [restJsonService]
     \<lparr>Host = ''lambda.us-east-1.amazonaws.com'', ReqMethod = ''GET'',
      ReqRequestURI = ''/tags'', Header = Map.empty\<rparr> [] 200 []
   = Some (Inr [\<lparr>Region = ''us-east-1'', EntryType = ''ProxyCall'', Service = ''Lambda'',
         EntryMethod = ''*'', Parameters = Map.empty, URIParameters = Map.empty,
         FinalHTTPStatusCode = 200\<rparr>])"
  by (simp add: handleAWSRequest_def endpointPrefixOf_def restJsonService_def emptyMetadata_def
      zeroServiceDefinition_def dispatchProtocol_def goFragment_def pathRegex_def
      rePlaceholder_def regionOf_ex2)

text \<open>
  C2, amended: when the request URI parses, every template compiles, and no operation
  has both the method of the request and a pattern that matches the path, the action
  stays \<^verbatim>\<open>*\<close> and no URI parameter is bound, and the request is decoded further as any
  other: the query values are resolved against the input of the operation named \<^verbatim>\<open>*\<close>
  (the zero shape when there is none), and an entry with the action \<^verbatim>\<open>*\<close> is logged,
  unless the resolver faults on a query key or a non-empty body is not JSON.
\<close>

theorem unmatched_operation_is_logged:
  assumes host: "Host req = p @ ''.amazonaws.com''"
    and sel: "selectServiceDefinition serviceDefinitions
                (endpointPrefixOf (Split (Host req) (CHR ''.''))) zeroServiceDefinition = serviceDef"
    and proto: "Protocol (Metadata serviceDef) = ''rest-json''"
    and uri: "ParseRequestURI lib (ReqRequestURI req) = Some urlobj"
    and nomatch: "\<forall>kv \<in> set (Operations serviceDef). \<exists>ms.
             FindAllStringSubmatch lib (pathRegex (RequestURI (Http (snd kv)))) (Path urlobj) = Some ms \<and>
             \<not> (Method (Http (snd kv)) = ReqMethod req \<and> ms \<noteq> [])"
  shows "handleAWSRequest lib fuel serviceDefinitions req body respCode callLog =
     (case queryPart lib fuel (operationInput serviceDef ''*'') (Shapes serviceDef)
             (Query urlobj) Map.empty of
        None \<Rightarrow> None
      | Some (Inl e) \<Rightarrow> Some (Inl e)
      | Some (Inr params) \<Rightarrow>
          (if body = [] then
             Some (Inr (callLog @
               [\<lparr>Region = regionOf (Host req), EntryType = ''ProxyCall'',
                 Service = ServiceID (Metadata serviceDef), EntryMethod = ''*'',
                 Parameters = params, URIParameters = Map.empty,
                 FinalHTTPStatusCode = respCode\<rparr>]))
           else
             (case Unmarshal lib body of
                None \<Rightarrow> Some (Inr callLog)
              | Some bodyJSON \<Rightarrow>
                  Some (Inr (callLog @
                    [\<lparr>Region = regionOf (Host req), EntryType = ''ProxyCall'',
                      Service = ServiceID (Metadata serviceDef), EntryMethod = ''*'',
                      Parameters = snd (flatten (FormatFloat lib) True params bodyJSON []),
                      URIParameters = Map.empty, FinalHTTPStatusCode = respCode\<rparr>])))))"
proof -
  have pp: "pathPart lib req (Path urlobj) (Operations serviceDef) (''*'', Map.empty)
              = Inr (''*'', Map.empty)"
    using nomatch by (rule pathPart_no_match)
  have "dispatchProtocol lib fuel serviceDef req body =
     (case queryPart lib fuel (operationInput serviceDef ''*'') (Shapes serviceDef)
             (Query urlobj) Map.empty of
        None \<Rightarrow> None
      | Some (Inl e) \<Rightarrow> Some (Inl e)
      | Some (Inr params) \<Rightarrow>
          (if body = [] then Some (Inr (Some (''*'', params, Map.empty)))
           else
             (case Unmarshal lib body of
                None \<Rightarrow> Some (Inr None)
              | Some bodyJSON \<Rightarrow>
                  Some (Inr (Some (''*'',
                    snd (flatten (FormatFloat lib) True params bodyJSON []), Map.empty))))))"
    unfolding dispatchProtocol_def using proto uri pp
    by (simp split: option.splits sum.splits)
  then show ?thesis
    using handleAWSRequest_amazonaws_com [OF host, of lib fuel serviceDefinitions body respCode callLog] sel
    by (simp split: option.splits sum.splits)
qed

theorem unmatched_operation_is_logged_witness:
  "handleAWSRequest goFragment 0 [restJsonService]
     \<lparr>Host = ''lambda.us-east-1.amazonaws.com'', ReqMethod = ''POST'',
      ReqRequestURI = ''/functions'', Header = Map.empty\<rparr> [] 200 []
   = Some (Inr [\<lparr>Region = ''us-east-1'', EntryType = ''ProxyCall'', Service = ''Lambda'',
         EntryMethod = ''*'', Parameters = Map.empty, URIParameters = Map.empty,
         FinalHTTPStatusCode = 200\<rparr>])"
proof -
  let ?req = "\<lparr>Host = ''lambda.us-east-1.amazonaws.com'', ReqMethod = ''POST'',
      ReqRequestURI = ''/functions'', Header = Map.empty\<rparr>"
  have host: "Host ?req = ''lambda.us-east-1'' @ ''.amazonaws.com''" by simp
  have sel: "selectServiceDefinition [restJsonService]
                (endpointPrefixOf (Split (Host ?req) (CHR ''.''))) zeroServiceDefinition
             = restJsonService"
    by (simp add: endpointPrefixOf_def restJsonService_def emptyMetadata_def
        zeroServiceDefinition_def)
  have proto: "Protocol (Metadata restJsonService) = ''rest-json''"
    by (simp add: restJsonService_def)
  have uri: "ParseRequestURI goFragment (ReqRequestURI ?req) = Some \<lparr>Path = ''/functions'', Query = []\<rparr>"
    by (simp add: goFragment_def)
  have nomatch: "\<forall>kv \<in> set (Operations restJsonService). \<exists>ms.
             FindAllStringSubmatch goFragment (pathRegex (RequestURI (Http (snd kv))))
               (Path \<lparr>Path = ''/functions'', Query = []\<rparr>) = Some ms \<and>
             \<not> (Method (Http (snd kv)) = ReqMethod ?req \<and> ms \<noteq> [])"
    by (simp add: restJsonService_def goFragment_def pathRegex_def rePlaceholder_def)
  show ?thesis
    using unmatched_operation_is_logged [OF host sel proto uri nomatch,
        where body = "[]" and fuel = 0 and respCode = 200 and callLog = "[]"]
    by (simp add: regionOf_ex2 restJsonService_def)
qed

subsection \<open>Hosts under \<^verbatim>\<open>amazonaws.com.cn\<close>\<close>

text \<open>
  C3. The claim is that a host ending in \<^verbatim>\<open>amazonaws.com.cn\<close> is a candidate call, decoded
  as a host ending in \<^verbatim>\<open>amazonaws.com\<close> is. The code does not decode it: the expression of
  line 158 accepts the host (as the expression of line 397 would read its region), but
  the test of line 276 compares the last label with \<^verbatim>\<open>com\<close>, and the last label of such
  a host is \<^verbatim>\<open>cn\<close>: the decoder returns at line 287 and the call log is unchanged.
\<close>

theorem cn_host_is_dropped:
  assumes "Host req = p @ ''.amazonaws.com.cn''" and "CHR 0x0A \<notin> set p"
  shows "isAWSHostname (Host req) \<and>
         onRequest lib fuel serviceDefinitions req body callLog = Some (Inr callLog)"
proof -
  have aws: "isAWSHostname (Host req)"
    using assms by (simp add: isAWSHostname_def HasSuffix_def)
  have "Split (Host req) (CHR ''.'') = Split ((p @ ''.'') @ ''amazonaws.com'') (CHR ''.'') @ [''cn'']"
    using assms(1) Split_cn_last [of "p @ ''.''"] by simp
  then have "Split (Host req) (CHR ''.'') ! (length (Split (Host req) (CHR ''.'')) - 1) = ''cn''"
    by (simp add: nth_append)
  then have "handleAWSRequest lib fuel serviceDefinitions req body 200 callLog = Some (Inr callLog)"
    by (simp add: handleAWSRequest_def Let_def)
  with aws show ?thesis
    by (simp add: onRequest_def)
qed

theorem cn_host_is_dropped_witness:
  "onRequest goFragment 0 [jsonService]
     \<lparr>Host = ''dynamodb.cn-north-1.amazonaws.com.cn'', ReqMethod = ''POST'',
      ReqRequestURI = ''/'', Header = [''X-Amz-Target'' \<mapsto> [''DynamoDB_20120810.ListTables'']]\<rparr>
     ''{}'' [] = Some (Inr []) \<and>
   onRequest goFragment 0 [jsonService]
     \<lparr>Host = ''dynamodb.us-east-1.amazonaws.com'', ReqMethod = ''POST'',
      ReqRequestURI = ''/'', Header = [''X-Amz-Target'' \<mapsto> [''DynamoDB_20120810.ListTables'']]\<rparr>
     ''{}'' []
   = Some (Inr [\<lparr>Region = ''us-east-1'', EntryType = ''ProxyCall'', Service = ''DynamoDB'',
         EntryMethod = ''ListTables'', Parameters = Map.empty, URIParameters = Map.empty,
         FinalHTTPStatusCode = 200\<rparr>])"
proof -
  let ?req = "\<lparr>Host = ''dynamodb.cn-north-1.amazonaws.com.cn'', ReqMethod = ''POST'',
      ReqRequestURI = ''/'', Header = [''X-Amz-Target'' \<mapsto> [''DynamoDB_20120810.ListTables'']]\<rparr>"
  have h: "Host ?req = ''dynamodb.cn-north-1'' @ ''.amazonaws.com.cn''" by simp
  have n: "CHR 0x0A \<notin> set ''dynamodb.cn-north-1''" by simp
  have "onRequest goFragment 0 [jsonService] ?req ''{}'' [] = Some (Inr [])"
    using cn_host_is_dropped [OF h n, of goFragment 0 "[jsonService]" "''{}''" "[]"] by simp
  moreover have "onRequest goFragment 0 [jsonService]
     \<lparr>Host = ''dynamodb.us-east-1.amazonaws.com'', ReqMethod = ''POST'',
      ReqRequestURI = ''/'', Header = [''X-Amz-Target'' \<mapsto> [''DynamoDB_20120810.ListTables'']]\<rparr>
     ''{}'' []
   = Some (Inr [\<lparr>Region = ''us-east-1'', EntryType = ''ProxyCall'', Service = ''DynamoDB'',
         EntryMethod = ''ListTables'', Parameters = Map.empty, URIParameters = Map.empty,
         FinalHTTPStatusCode = 200\<rparr>])"
    by (simp add: onRequest_def isAWSHostname_def HasSuffix_def handleAWSRequest_def
      endpointPrefixOf_def jsonService_def emptyMetadata_def zeroServiceDefinition_def
      dispatchProtocol_def goFragment_def HeaderGet_def regionOf_ex3)
  ultimately show ?thesis by simp
qed

subsection \<open>A body that is a JSON scalar\<close>

text \<open>
  C4. The claim is that a body whose JSON value is neither an object nor an array is
  a decode error, with no entry logged, under the json and the rest-json protocols.
  In the code \<open>flatten\<close> returns the error \<^verbatim>\<open>invalid object type\<close> for such a value and
  leaves the map as it is, but both callers (lines 345 and 356) drop what it returns:
  the body \<^verbatim>\<open>5\<close> is logged under both protocols, with no parameters.
\<close>

theorem scalar_body_is_logged:
  "flatten fmtFloat isTop params (Scalar x) prefix = (Some InvalidObjectType, params) \<and>
   handleAWSRequest goFragment 0 [jsonService]
     \<lparr>Host = ''dynamodb.us-east-1.amazonaws.com'', ReqMethod = ''POST'',
      ReqRequestURI = ''/'', Header = [''X-Amz-Target'' \<mapsto> [''DynamoDB_20120810.ListTables'']]\<rparr>
     ''5'' 200 []
   = Some (Inr [\<lparr>Region = ''us-east-1'', EntryType = ''ProxyCall'', Service = ''DynamoDB'',
         EntryMethod = ''ListTables'', Parameters = Map.empty, URIParameters = Map.empty,
         FinalHTTPStatusCode = 200\<rparr>]) \<and>
   handleAWSRequest goFragment 0 [restJsonService]
     \<lparr>Host = ''lambda.us-east-1.amazonaws.com'', ReqMethod = ''GET'',
      ReqRequestURI = ''/functions'', Header = Map.empty\<rparr> ''5'' 200 []
   = Some (Inr [\<lparr>Region = ''us-east-1'', EntryType = ''ProxyCall'', Service = ''Lambda'',
         EntryMethod = ''ListFunctions'', Parameters = Map.empty, URIParameters = Map.empty,
         FinalHTTPStatusCode = 200\<rparr>])"
proof (intro conjI)
  show "flatten fmtFloat isTop params (Scalar x) prefix = (Some InvalidObjectType, params)"
    by simp
  show "handleAWSRequest goFragment 0 [jsonService]
     \<lparr>Host = ''dynamodb.us-east-1.amazonaws.com'', ReqMethod = ''POST'',
      ReqRequestURI = ''/'', Header = [''X-Amz-Target'' \<mapsto> [''DynamoDB_20120810.ListTables'']]\<rparr>
     ''5'' 200 []
   = Some (Inr [\<lparr>Region = ''us-east-1'', EntryType = ''ProxyCall'', Service = ''DynamoDB'',
         EntryMethod = ''ListTables'', Parameters = Map.empty, URIParameters = Map.empty,
         FinalHTTPStatusCode = 200\<rparr>])"
    by (simp add: handleAWSRequest_def endpointPrefixOf_def jsonService_def emptyMetadata_def
        zeroServiceDefinition_def dispatchProtocol_def goFragment_def HeaderGet_def regionOf_ex3)
  show "handleAWSRequest goFragment 0 [restJsonService]
     \<lparr>Host = ''lambda.us-east-1.amazonaws.com'', ReqMethod = ''GET'',
      ReqRequestURI = ''/functions'', Header = Map.empty\<rparr> ''5'' 200 []
   = Some (Inr [\<lparr>Region = ''us-east-1'', EntryType = ''ProxyCall'', Service = ''Lambda'',
         EntryMethod = ''ListFunctions'', Parameters = Map.empty, URIParameters = Map.empty,
         FinalHTTPStatusCode = 200\<rparr>])"
    by (simp add: handleAWSRequest_def endpointPrefixOf_def restJsonService_def emptyMetadata_def
        zeroServiceDefinition_def dispatchProtocol_def goFragment_def pathRegex_def
        rePlaceholder_def regionOf_ex2)
qed

subsection \<open>The target header of the json protocol\<close>

text \<open>
  C10. The claim is that under the json protocol, for a body that is JSON and a
  non-empty \<^verbatim>\<open>X-Amz-Target\<close> header, the action is computed without a run-time fault,
  also when the header has no dot. The code indexes \<^verbatim>\<open>strings.Split(header, ".")[1]\<close>
  (line 355) with no test of the length: a header without a dot splits into one field,
  and the index panics.
\<close>

theorem target_without_dot_panics:
  assumes host: "Host req = p @ ''.amazonaws.com''"
    and sel: "selectServiceDefinition serviceDefinitions
                (endpointPrefixOf (Split (Host req) (CHR ''.''))) zeroServiceDefinition = serviceDef"
    and proto: "Protocol (Metadata serviceDef) = ''json''"
    and json: "Unmarshal lib body = Some bodyJSON"
    and target: "HeaderGet req ''X-Amz-Target'' \<noteq> []"
    and nodot: "CHR ''.'' \<notin> set (HeaderGet req ''X-Amz-Target'')"
  shows "handleAWSRequest lib fuel serviceDefinitions req body respCode callLog
           = Some (Inl IndexOutOfRange)"
proof -
  have "Split (HeaderGet req ''X-Amz-Target'') (CHR ''.'') = [HeaderGet req ''X-Amz-Target'']"
    using nodot by (rule Split_no_sep)
  then have "dispatchProtocol lib fuel serviceDef req body = Some (Inl IndexOutOfRange)"
    unfolding dispatchProtocol_def using proto json target by simp
  then show ?thesis
    using handleAWSRequest_amazonaws_com [OF host, of lib fuel serviceDefinitions body respCode callLog] sel
    by simp
qed

theorem target_without_dot_panics_witness:
  "handleAWSRequest goFragment 0 [jsonService]
     \<lparr>Host = ''dynamodb.us-east-1.amazonaws.com'', ReqMethod = ''POST'',
      ReqRequestURI = ''/'', Header = [''X-Amz-Target'' \<mapsto> [''ListTables'']]\<rparr>
     ''{}'' 200 [] = Some (Inl IndexOutOfRange)"
proof -
  let ?req = "\<lparr>Host = ''dynamodb.us-east-1.amazonaws.com'', ReqMethod = ''POST'',
      ReqRequestURI = ''/'', Header = [''X-Amz-Target'' \<mapsto> [''ListTables'']]\<rparr>"
  have host: "Host ?req = ''dynamodb.us-east-1'' @ ''.amazonaws.com''" by simp
  have sel: "selectServiceDefinition [jsonService]
                (endpointPrefixOf (Split (Host ?req) (CHR ''.''))) zeroServiceDefinition
             = jsonService"
    by (simp add: endpointPrefixOf_def jsonService_def emptyMetadata_def
        zeroServiceDefinition_def)
  have proto: "Protocol (Metadata jsonService) = ''json''"
    by (simp add: jsonService_def)
  have json: "Unmarshal goFragment ''{}'' = Some (Object [])"
    by (simp add: goFragment_def)
  have target: "HeaderGet ?req ''X-Amz-Target'' \<noteq> []"
    by (simp add: HeaderGet_def)
  have nodot: "CHR ''.'' \<notin> set (HeaderGet ?req ''X-Amz-Target'')"
    by (simp add: HeaderGet_def)
  show ?thesis
    using target_without_dot_panics [OF host sel proto json target nodot, of 0 200 "[]"] .
qed

subsection \<open>Index normalization\<close>

lemma takeWhile_isDigit_nonempty:
  "takeWhile isDigit cs \<noteq> [] \<longleftrightarrow> cs \<noteq> [] \<and> isDigit (hd cs)"
  by (cases cs) auto

lemma reDotNumber_pos:
  "0 < reDotNumber s \<longleftrightarrow> (\<exists>d ds. s = CHR ''.'' # d # ds \<and> isDigit d)"
proof (cases s)
  case Nil
  then show ?thesis by (simp add: reDotNumber_def)
next
  case (Cons c cs)
  show ?thesis
  proof (cases cs)
    case Nil
    with Cons show ?thesis by (simp add: reDotNumber_def)
  next
    case (Cons d ds)
    with \<open>s = c # cs\<close> show ?thesis by (simp add: reDotNumber_def)
  qed
qed

lemma reDotMemberNumber_pos:
  assumes "0 < reDotMemberNumber s"
  shows "\<exists>d ds. s = ''.member.'' @ d # ds \<and> isDigit d"
proof -
  from assms have t: "take 8 s = ''.member.''" and d: "takeWhile isDigit (drop 8 s) \<noteq> []"
    by (auto simp: reDotMemberNumber_def split: if_splits)
  from d have "drop 8 s \<noteq> [] \<and> isDigit (hd (drop 8 s))"
    using takeWhile_isDigit_nonempty [of "drop 8 s"] by blast
  then obtain x xs where x: "drop 8 s = x # xs" "isDigit x"
    by (cases "drop 8 s") auto
  have "s = take 8 s @ drop 8 s" by simp
  with t x show ?thesis by metis
qed

lemma hasMatch_append: "hasMatch re t \<Longrightarrow> hasMatch re (s @ t)"
  by (induction s) auto

lemma hasMatch_member_number: "hasMatch reDotMemberNumber s \<Longrightarrow> hasMatch reDotNumber s"
proof (induction s)
  case Nil
  then show ?case by simp
next
  case (Cons c cs)
  show ?case
  proof (cases "0 < reDotMemberNumber (c # cs)")
    case True
    then obtain d ds where s: "c # cs = ''.member.'' @ d # ds" and d: "isDigit d"
      using reDotMemberNumber_pos by blast
    have "0 < reDotNumber (CHR ''.'' # d # ds)"
      using d by (simp add: reDotNumber_pos)
    then have "hasMatch reDotNumber (CHR ''.'' # d # ds)" by simp
    then have "hasMatch reDotNumber (''.member'' @ CHR ''.'' # d # ds)"
      by (rule hasMatch_append)
    then show ?thesis using s by simp
  next
    case False
    with Cons show ?thesis by simp
  qed
qed

lemma ReplaceAllString_dotNumber_hd:
  "s \<noteq> [] \<Longrightarrow> ReplaceAllString reDotNumber s ''[]'' \<noteq> [] \<and>
     (hd (ReplaceAllString reDotNumber s ''[]'') = hd s \<or>
      hd (ReplaceAllString reDotNumber s ''[]'') = CHR ''['')"
  by (cases s) auto

lemma ReplaceAllString_dotNumber_no_match:
  "\<not> hasMatch reDotNumber (ReplaceAllString reDotNumber s ''[]'')"
proof (induction reDotNumber s "''[]''" rule: ReplaceAllString.induct)
  case 1
  show ?case by simp
next
  case (2 c cs)
  show ?case
  proof (cases "reDotNumber (c # cs) = 0")
    case True
    let ?r = "ReplaceAllString reDotNumber cs ''[]''"
    have ih: "\<not> hasMatch reDotNumber ?r" using 2(1) True by simp
    have "\<not> 0 < reDotNumber (c # ?r)"
    proof
      assume "0 < reDotNumber (c # ?r)"
      then obtain d ds where r: "c = CHR ''.''" "?r = d # ds" "isDigit d"
        by (auto simp: reDotNumber_pos)
      then have cs: "cs \<noteq> []" by auto
      from ReplaceAllString_dotNumber_hd [OF cs] r
      have "isDigit (hd cs)" by (auto simp: isDigit_def)
      with cs r(1) have "0 < reDotNumber (c # cs)"
        by (auto simp: reDotNumber_pos neq_Nil_conv)
      with True show False by simp
    qed
    with ih True show ?thesis by simp
  next
    case False
    have ih: "\<not> hasMatch reDotNumber
                (ReplaceAllString reDotNumber (drop (reDotNumber (c # cs) - 1) cs) ''[]'')"
      using 2(2) False by simp
    have "\<not> 0 < reDotNumber (CHR ''['' # t)" "\<not> 0 < reDotNumber (CHR '']'' # t)" for t
      by (simp_all add: reDotNumber_pos)
    with ih False show ?thesis by simp
  qed
qed

lemma normalizeKey_ex1: "normalizeKey ''Filter.1.Name'' = ''Filter[].Name''"
  by (simp add: normalizeKey_def reDotNumber_def reDotMemberNumber_def isDigit_def)

lemma normalizeKey_ex2: "normalizeKey ''Filter.member.2.Value'' = ''Filter[].Value''"
  by (simp add: normalizeKey_def reDotNumber_def reDotMemberNumber_def isDigit_def)

lemma queryPart_step:
  "queryPart lib fuel input shapes ((k, v) # rest) params =
     (case resolvePropertyName (ToLower lib) fuel input (normalizeKey k) [] [] shapes of
        None \<Rightarrow> None
      | Some (Inl e) \<Rightarrow> Some (Inl e)
      | Some (Inr resolved) \<Rightarrow>
          queryPart lib fuel input shapes rest
            (params((if resolved \<noteq> [] then resolved else normalizeKey k) \<mapsto>
               index params (if resolved \<noteq> [] then resolved else normalizeKey k) @ v)))"
  by (simp add: Let_def split: option.splits sum.splits)

text \<open>
  C7. For every query or form key, normalization is the replacement of every
  \<^verbatim>\<open>.member.<N>\<close> segment by \<^verbatim>\<open>[]\<close> followed by the replacement of every remaining \<^verbatim>\<open>.<N>\<close>
  segment by \<^verbatim>\<open>[]\<close>; the normalized key has no segment of either form left; the loop
  over the query or form values resolves the normalized key, and files the values under
  the resolved path or else under the normalized key; and \<^verbatim>\<open>Filter.1.Name\<close> becomes
  \<^verbatim>\<open>Filter[].Name\<close>, \<^verbatim>\<open>Filter.member.2.Value\<close> becomes \<^verbatim>\<open>Filter[].Value\<close>.
\<close>

theorem normalizeKey_replaces_indices:
  "normalizeKey k =
     ReplaceAllString reDotNumber (ReplaceAllString reDotMemberNumber k ''[]'') ''[]'' \<and>
   \<not> hasMatch reDotMemberNumber (normalizeKey k) \<and>
   \<not> hasMatch reDotNumber (normalizeKey k) \<and>
   queryPart lib fuel input shapes ((k, v) # rest) params =
     (case resolvePropertyName (ToLower lib) fuel input (normalizeKey k) [] [] shapes of
        None \<Rightarrow> None
      | Some (Inl e) \<Rightarrow> Some (Inl e)
      | Some (Inr resolved) \<Rightarrow>
          queryPart lib fuel input shapes rest
            (params((if resolved \<noteq> [] then resolved else normalizeKey k) \<mapsto>
               index params (if resolved \<noteq> [] then resolved else normalizeKey k) @ v))) \<and>
   normalizeKey ''Filter.1.Name'' = ''Filter[].Name'' \<and>
   normalizeKey ''Filter.member.2.Value'' = ''Filter[].Value''"
proof -
  have a: "\<not> hasMatch reDotNumber (normalizeKey k)"
    unfolding normalizeKey_def by (rule ReplaceAllString_dotNumber_no_match)
  then have b: "\<not> hasMatch reDotMemberNumber (normalizeKey k)"
    using hasMatch_member_number by blast
  have c: "normalizeKey k =
     ReplaceAllString reDotNumber (ReplaceAllString reDotMemberNumber k ''[]'') ''[]''"
    by (simp add: normalizeKey_def)
  show ?thesis
    using a b c normalizeKey_ex1 normalizeKey_ex2
      queryPart_step [of lib fuel input shapes k v rest params]
    by blast
qed

subsection \<open>The value flattener\<close>

lemma accumulate_append: "accumulate m (xs @ ys) = accumulate (accumulate m xs) ys"
proof (induction xs arbitrary: m)
  case Nil
  show ?case by simp
next
  case (Cons e es)
  obtain p s where e: "e = (p, s)" by (cases e)
  show ?case
    unfolding e by (simp only: append_Cons accumulate.simps Cons.IH)
qed

lemma flatten_entries:
  "flatten fmtFloat isTop flatMap nested prefix =
     (case nested of
        Object kvs \<Rightarrow>
          (None, accumulate flatMap
             (concat (map (\<lambda>kv. entries fmtFloat (if isTop then fst kv else prefix @ ''.'' @ fst kv) (snd kv)) kvs)))
      | Array vs \<Rightarrow>
          (None, accumulate flatMap (concat (map (entries fmtFloat (prefix @ ''[]'')) vs)))
      | Scalar x \<Rightarrow> (Some InvalidObjectType, flatMap))"
  and assign_entries:
  "assign fmtFloat flatMap newKey v = (None, accumulate flatMap (entries fmtFloat newKey v))"
  and flattenObject_entries:
  "flattenObject fmtFloat isTop flatMap kvs prefix =
     accumulate flatMap
       (concat (map (\<lambda>kv. entries fmtFloat (if isTop then fst kv else prefix @ ''.'' @ fst kv) (snd kv)) kvs))"
  and flattenArray_entries:
  "flattenArray fmtFloat flatMap vs prefix =
     accumulate flatMap (concat (map (entries fmtFloat (prefix @ ''[]'')) vs))"
proof (induction fmtFloat isTop flatMap nested prefix
         and fmtFloat flatMap newKey v
         and fmtFloat isTop flatMap kvs prefix
         and fmtFloat flatMap vs prefix
       rule: flatten_assign_flattenObject_flattenArray.induct)
  case (1 fmtFloat isTop flatMap kvs prefix)
  then show ?case by simp
next
  case (2 fmtFloat isTop flatMap vs prefix)
  then show ?case by simp
next
  case (3 fmtFloat isTop flatMap x prefix)
  show ?case by simp
next
  case (4 fmtFloat flatMap newKey kvs)
  then show ?case by simp
next
  case (5 fmtFloat flatMap newKey vs)
  then show ?case by simp
next
  case (6 fmtFloat flatMap newKey x)
  show ?case by (simp only: assign.simps entries.simps accumulate.simps)
next
  case (7 fmtFloat isTop flatMap prefix)
  show ?case by simp
next
  case (8 fmtFloat isTop flatMap k v kvs prefix)
  then show ?case by (simp add: accumulate_append)
next
  case (9 fmtFloat flatMap prefix)
  show ?case by simp
next
  case (10 fmtFloat flatMap v vs prefix)
  then show ?case by (simp add: accumulate_append)
qed

text \<open>
  C8. The flattener maps a top-level object by flattening each key as a root with no
  prefix; an object reached under the path \<open>p\<close> puts the value of its key \<open>k\<close> under
  \<open>p.k\<close>; an array reached under \<open>p\<close> puts every element under the one path \<open>p[]\<close>; a
  scalar reached under \<open>p\<close> appends its string to the entry of \<open>p\<close> (\<open>entries\<close> lists the
  values with these paths, \<open>accumulate\<close> appends them in order). With \<^verbatim>\<open>1\<close> and \<^verbatim>\<open>2\<close>
  printed as such, \<^verbatim>\<open>{"a":{"b":[1,2]}}\<close> flattens to \<^verbatim>\<open>{"a.b[]": ["1","2"]}\<close> and \<^verbatim>\<open>{"x":"y"}\<close>
  to \<^verbatim>\<open>{"x": ["y"]}\<close>.
\<close>

theorem flatten_is_path_accumulation:
  assumes "fmtFloat one = ''1''" and "fmtFloat two = ''2''"
  shows "flatten fmtFloat True flatMap (Object kvs) prefix
           = (None, accumulate flatMap (topEntries fmtFloat kvs)) \<and>
         flatten fmtFloat False flatMap (Object kvs) p
           = (None, accumulate flatMap (entries fmtFloat p (Object kvs))) \<and>
         flatten fmtFloat isTop flatMap (Array vs) p
           = (None, accumulate flatMap (entries fmtFloat p (Array vs))) \<and>
         flatten fmtFloat True Map.empty
           (Object [(''a'', Object [(''b'', Array [Scalar (Float64 one), Scalar (Float64 two)])])]) []
           = (None, [''a.b[]'' \<mapsto> [''1'', ''2'']]) \<and>
         flatten fmtFloat True Map.empty (Object [(''x'', Scalar (String ''y''))]) []
           = (None, [''x'' \<mapsto> [''y'']])"
proof (intro conjI)
  show "flatten fmtFloat True flatMap (Object kvs) prefix
          = (None, accumulate flatMap (topEntries fmtFloat kvs))"
    by (simp add: flatten_entries topEntries_def)
  show "flatten fmtFloat False flatMap (Object kvs) p
          = (None, accumulate flatMap (entries fmtFloat p (Object kvs)))"
    by (simp add: flatten_entries)
  show "flatten fmtFloat isTop flatMap (Array vs) p
          = (None, accumulate flatMap (entries fmtFloat p (Array vs)))"
    by (simp add: flatten_entries)
  show "flatten fmtFloat True Map.empty
           (Object [(''a'', Object [(''b'', Array [Scalar (Float64 one), Scalar (Float64 two)])])]) []
           = (None, [''a.b[]'' \<mapsto> [''1'', ''2'']])"
    using assms by (simp add: index_def)
  show "flatten fmtFloat True Map.empty (Object [(''x'', Scalar (String ''y''))]) []
           = (None, [''x'' \<mapsto> [''y'']])"
    by (simp add: index_def)
qed

theorem flatten_is_path_accumulation_witness:
  "flatten (FormatFloat goFragment) True Map.empty
     (Object [(''a'', Object [(''b'', Array [Scalar (Float64 1), Scalar (Float64 2)])])]) []
     = (None, [''a.b[]'' \<mapsto> [''1'', ''2'']]) \<and>
   flatten (FormatFloat goFragment) True Map.empty (Object [(''x'', Scalar (String ''y''))]) []
     = (None, [''x'' \<mapsto> [''y'']])"
proof -
  have one: "FormatFloat goFragment 1 = ''1''"
    by (simp add: goFragment_def) code_simp
  have two: "FormatFloat goFragment 2 = ''2''"
    by (simp add: goFragment_def) code_simp
  show ?thesis
    using flatten_is_path_accumulation
      [where fmtFloat = "FormatFloat goFragment" and one = 1 and two = 2, OF one two]
    by blast
qed

subsection \<open>The wire name of a structure member\<close>

lemma resolveMembers_wireName:
  "resolveMembers lower fuel ((k, v) # rest) searchProp path locationPath shapes =
     (case resolvePropertyName lower fuel v searchProp
             (if path = [] then k else path @ ''.'' @ k)
             (locationPath @ ''.'' @ wireName k v) shapes of
        None \<Rightarrow> None
      | Some (Inl e) \<Rightarrow> Some (Inl e)
      | Some (Inr ret) \<Rightarrow>
          if ret \<noteq> [] then Some (Inr ret)
          else resolveMembers lower fuel rest searchProp path locationPath shapes)"
  by (simp add: wireName_def)

lemma toLowerASCII_ex1: "toLowerASCII ''Filters[].FilterName'' = ''filters[].filtername''"
  by code_simp

lemma toLowerASCII_ex2: "toLowerASCII ''FilterName'' = ''filtername''"
  by code_simp

lemma switchType_simps:
  "switchType ''structure'' = Structure" "switchType ''list'' = List"
  "switchType ''string'' = Leaf" "switchType ''integer'' = Leaf" "switchType [] = Leaf"
  by (simp_all add: switchType_def)

text \<open>
  C5, as the claim states it: for a structure member \<^verbatim>\<open>Filters\<close> that is a list of
  structures whose member \<^verbatim>\<open>Name\<close> has the location name \<^verbatim>\<open>FilterName\<close>, the key
  \<^verbatim>\<open>FilterName[]\<close> resolves to \<^verbatim>\<open>Filters[].Name\<close>. In the code it resolves to nothing: the
  wire path of the leaf is \<^verbatim>\<open>Filters[].FilterName\<close>, which carries the segment of every
  member above it.
\<close>

theorem wire_name_counterexample:
  "resolvePropertyName toLowerASCII 4 filtersShape ''FilterName[]'' [] [] Map.empty
     = Some (Inr [])"
  by (simp add: filtersShape_def numeral_nat derefShape_def switchType_simps
      trimLocationPath_def toLowerASCII_ex1 toLowerASCII_ex2)

text \<open>
  C5, amended: the segment that a structure member adds to the wire path is its query
  name when set, else its location name when set, else its own name (the loop over
  the members calls the resolver with the wire path extended by a dot and that
  segment); and for the shape above the key \<^verbatim>\<open>Filters[].FilterName\<close> resolves to
  \<^verbatim>\<open>Filters[].Name\<close>.
\<close>

theorem wire_name_of_member:
  "resolveMembers lower fuel ((k, v) # rest) searchProp path locationPath shapes =
     (case resolvePropertyName lower fuel v searchProp
             (if path = [] then k else path @ ''.'' @ k)
             (locationPath @ ''.'' @ wireName k v) shapes of
        None \<Rightarrow> None
      | Some (Inl e) \<Rightarrow> Some (Inl e)
      | Some (Inr ret) \<Rightarrow>
          if ret \<noteq> [] then Some (Inr ret)
          else resolveMembers lower fuel rest searchProp path locationPath shapes) \<and>
   resolvePropertyName toLowerASCII 4 filtersShape ''Filters[].FilterName'' [] [] Map.empty
     = Some (Inr ''Filters[].Name'')"
proof
  show "resolveMembers lower fuel ((k, v) # rest) searchProp path locationPath shapes =
     (case resolvePropertyName lower fuel v searchProp
             (if path = [] then k else path @ ''.'' @ k)
             (locationPath @ ''.'' @ wireName k v) shapes of
        None \<Rightarrow> None
      | Some (Inl e) \<Rightarrow> Some (Inl e)
      | Some (Inr ret) \<Rightarrow>
          if ret \<noteq> [] then Some (Inr ret)
          else resolveMembers lower fuel rest searchProp path locationPath shapes)"
    by (rule resolveMembers_wireName)
  show "resolvePropertyName toLowerASCII 4 filtersShape ''Filters[].FilterName'' [] [] Map.empty
     = Some (Inr ''Filters[].Name'')"
    by (simp add: filtersShape_def numeral_nat derefShape_def switchType_simps
        trimLocationPath_def toLowerASCII_ex1)
qed

theorem wire_name_of_member_witness:
  "resolveMembers toLowerASCII 1
     [(''Name'', ServiceStructure [] ''string'' None [] ''FilterName'' [])]
     ''FilterName'' [] [] Map.empty = Some (Inr ''Name'')"
proof -
  have "resolvePropertyName toLowerASCII 1
          (ServiceStructure [] ''string'' None [] ''FilterName'' []) ''FilterName''
          ''Name'' ''.FilterName'' Map.empty = Some (Inr ''Name'')"
    by (simp add: derefShape_def switchType_simps trimLocationPath_def)
  then show ?thesis
    using wire_name_of_member [of toLowerASCII 1 "''Name''"
        "ServiceStructure [] ''string'' None [] ''FilterName'' []" "[]" "''FilterName''"
        "[]" "[]" Map.empty]
    by (simp add: wireName_def)
qed

subsection \<open>Resolving a resolved path again\<close>

lemma HasSuffix_brackets:
  "HasSuffix s ''[]'' \<longleftrightarrow> 2 \<le> length s \<and> drop (length s - 2) s = ''[]''"
  by (simp add: HasSuffix_def numeral_2_eq_2)




lemma resolvePropertyName_Suc:
  assumes "2 \<le> length k"
  shows "resolvePropertyName lower (Suc n) obj k path lp shapes =
     (case switchType (Type (derefShape obj shapes)) of
        Opaque \<Rightarrow> Some (Inr [])
      | Structure \<Rightarrow>
          resolveMembers lower n (Members (derefShape obj shapes)) (stripBrackets k) path lp shapes
      | Leaf \<Rightarrow>
          if lower (trimLocationPath lp) = lower (stripBrackets k)
          then Some (Inr path) else Some (Inr [])
      | List \<Rightarrow>
          (case Member (derefShape obj shapes) of
             None \<Rightarrow> Some (Inl NilPointerDereference)
           | Some m \<Rightarrow>
               resolvePropertyName lower n m (stripBrackets k) (path @ ''[]'') (lp @ ''[]'') shapes)
      | Other \<Rightarrow> Some (Inr []))"
proof -
  have "(if drop (length k - 2) k = ''[]'' then take (length k - 2) k else k) = stripBrackets k"
    using assms unfolding stripBrackets_def HasSuffix_brackets by simp
  then show ?thesis
    using assms by (simp add: Let_def)
qed







lemma toLowerASCII_ex9: "toLowerASCII ''ab'' = ''ab''"
  by code_simp

lemma toLowerASCII_ex10: "toLowerASCII ''ab[]'' = ''ab[]''"
  by code_simp


lemma resolveRun_of_function:
  "resolvePropertyName lower n obj sp path lp shapes = Some r \<Longrightarrow>
   resolveRun lower obj sp path lp shapes r"
proof (induction n arbitrary: obj sp path lp r)
  case 0
  then show ?case by simp
next
  case (Suc n)
  have members: "membersRun lower ms k path' lp' shapes r'"
    if "resolveMembers lower n ms k path' lp' shapes = Some r'" for ms k path' lp' r'
    using that
  proof (induction ms)
    case Nil
    then show ?case by (auto intro: resolveRun_membersRun.NoMember)
  next
    case (Cons kv ms)
    obtain k' v where kv: "kv = (k', v)" by (cases kv)
    let ?np = "if path' = [] then k' else path' @ ''.'' @ k'"
    let ?nl = "if QueryName v \<noteq> [] then lp' @ ''.'' @ QueryName v
        else if LocationName v \<noteq> [] then lp' @ ''.'' @ LocationName v
        else lp' @ ''.'' @ k'"
    from Cons.prems obtain r0 where r0: "resolvePropertyName lower n v k ?np ?nl shapes = Some r0"
      unfolding kv by (auto simp: Let_def split: option.splits)
    then have run0: "resolveRun lower v k ?np ?nl shapes r0" by (rule Suc.IH)
    show ?case
    proof (cases "r0 = Inr []")
      case True
      with Cons.prems r0 have "resolveMembers lower n ms k path' lp' shapes = Some r'"
        unfolding kv by (simp add: Let_def)
      then have "membersRun lower ms k path' lp' shapes r'" by (rule Cons.IH)
      with run0 True show ?thesis
        unfolding kv by (auto intro: resolveRun_membersRun.MemberEmpty)
    next
      case False
      with Cons.prems r0 have "r' = r0"
        unfolding kv by (cases r0) (auto simp: Let_def)
      with run0 False show ?thesis
        unfolding kv by (auto intro: resolveRun_membersRun.MemberReturns)
    qed
  qed
  show ?case
  proof (cases "length sp < 2")
    case True
    with Suc.prems show ?thesis by (auto intro: resolveRun_membersRun.ShortKey)
  next
    case False
    then have l: "2 \<le> length sp" by simp
    note r = Suc.prems [unfolded resolvePropertyName_Suc [OF l]]
    show ?thesis
    proof (cases "switchType (Type (derefShape obj shapes))")
      case Opaque
      with r l show ?thesis by (auto intro: resolveRun_membersRun.OpaqueType)
    next
      case Structure
      with r have "membersRun lower (Members (derefShape obj shapes)) (stripBrackets sp) path lp shapes r"
        by (simp add: members)
      with l Structure show ?thesis
        by (auto intro: resolveRun_membersRun.StructureType)
    next
      case Leaf
      with r have "r = Inr (if lower (trimLocationPath lp) = lower (stripBrackets sp)
             then path else [])" by (auto split: if_splits)
      with l Leaf show ?thesis
        using resolveRun_membersRun.LeafType [of sp obj shapes lower path lp] by simp
    next
      case List
      show ?thesis
      proof (cases "Member (derefShape obj shapes)")
        case None
        with r List l show ?thesis by (auto intro: resolveRun_membersRun.ListNoMember)
      next
        case (Some m)
        with r List have "resolvePropertyName lower n m (stripBrackets sp) (path @ ''[]'')
            (lp @ ''[]'') shapes = Some r" by simp
        then have "resolveRun lower m (stripBrackets sp) (path @ ''[]'') (lp @ ''[]'') shapes r"
          by (rule Suc.IH)
        with l List Some show ?thesis by (auto intro: resolveRun_membersRun.ListType)
      qed
    next
      case Other
      with r l show ?thesis by (auto intro: resolveRun_membersRun.OtherType)
    qed
  qed
qed













lemma toLowerASCII_ex11: "toLowerASCII ''AB'' = ''ab''"
  by code_simp



text \<open>
  The amended claim leaves out the paths that end in \<^verbatim>\<open>[][]\<close>: the search key loses one
  \<^verbatim>\<open>[]\<close> at every call, the wire path loses one at the leaf only. For a list of lists
  of strings under the member \<^verbatim>\<open>ab\<close>, a key resolves to \<^verbatim>\<open>ab[][]\<close>, and \<^verbatim>\<open>ab[][]\<close> resolves to
  nothing.
\<close>

lemma nested_list_path_resolves_to_nothing:
  "resolvePropertyName toLowerASCII 4 nestedListShape ''ab[][][][][]'' [] [] Map.empty
     = Some (Inr ''ab[][]'') \<and>
   resolvePropertyName toLowerASCII 4 nestedListShape (normalizeKey ''ab[][]'') [] [] Map.empty
     = Some (Inr [])"
proof -
  have "normalizeKey ''ab[][]'' = ''ab[][]''"
    by (simp add: normalizeKey_def reDotNumber_def reDotMemberNumber_def)
  then show ?thesis
    by (simp add: nestedListShape_def numeral_nat derefShape_def switchType_simps
        trimLocationPath_def toLowerASCII_ex9 toLowerASCII_ex10)
qed

text \<open>
  The amended claim leaves out the shapes where another leaf has the wire path of \<open>p\<close>
  up to letter case: with the members \<^verbatim>\<open>ab\<close> and \<^verbatim>\<open>AB\<close> side by side, a run that visits \<^verbatim>\<open>AB\<close>
  first resolves the key \<^verbatim>\<open>ab\<close> to \<^verbatim>\<open>AB\<close>, and a run that visits \<^verbatim>\<open>ab\<close> first resolves the
  key \<^verbatim>\<open>AB\<close> to \<^verbatim>\<open>ab\<close>.
\<close>

lemma sibling_names_differing_in_case:
  "resolveRun toLowerASCII caseShape ''ab'' [] [] Map.empty (Inr ''AB'') \<and>
   resolveRun toLowerASCII caseShape (normalizeKey ''AB'') [] [] Map.empty (Inr ''ab'')"
proof
  let ?str = "ServiceStructure [] ''string'' None [] [] []"
  have s: "stripBrackets ''ab'' = ''ab''"
    by (simp add: stripBrackets_def HasSuffix_def)
  have "resolveRun toLowerASCII ?str ''ab'' ''AB'' ''.AB'' Map.empty
          (Inr (if toLowerASCII (trimLocationPath ''.AB'') = toLowerASCII (stripBrackets ''ab'')
                then ''AB'' else []))"
    by (rule resolveRun_membersRun.LeafType) (simp_all add: derefShape_def switchType_simps)
  then have "resolveRun toLowerASCII ?str ''ab'' ''AB'' ''.AB'' Map.empty (Inr ''AB'')"
    by (simp add: s trimLocationPath_def toLowerASCII_ex9 toLowerASCII_ex11)
  then have "membersRun toLowerASCII [(''AB'', ?str), (''ab'', ?str)] ''ab'' [] [] Map.empty
               (Inr ''AB'')"
    using resolveRun_membersRun.MemberReturns
      [of toLowerASCII ?str "''ab''" "[]" "''AB''" "[]" Map.empty "Inr ''AB''" "[(''ab'', ?str)]"]
    by simp
  then have "membersRun toLowerASCII [(''AB'', ?str), (''ab'', ?str)] (stripBrackets ''ab'')
               [] [] Map.empty (Inr ''AB'')"
    by (simp add: s)
  moreover have "mset [(''AB'', ?str), (''ab'', ?str)]
                   = mset (Members (derefShape caseShape Map.empty))"
    by (simp add: caseShape_def derefShape_def)
  moreover have "switchType (Type (derefShape caseShape Map.empty)) = Structure"
    by (simp add: caseShape_def derefShape_def switchType_simps)
  moreover have "2 \<le> length ''ab''" by simp
  ultimately show "resolveRun toLowerASCII caseShape ''ab'' [] [] Map.empty (Inr ''AB'')"
    using resolveRun_membersRun.StructureType
      [of "''ab''" caseShape Map.empty "[(''AB'', ?str), (''ab'', ?str)]" toLowerASCII
          "[]" "[]" "Inr ''AB''"]
    by blast
next
  have "normalizeKey ''AB'' = ''AB''"
    by (simp add: normalizeKey_def reDotNumber_def reDotMemberNumber_def)
  moreover have "resolvePropertyName toLowerASCII 2 caseShape ''AB'' [] [] Map.empty
                   = Some (Inr ''ab'')"
    by (simp add: caseShape_def numeral_nat derefShape_def switchType_simps
        trimLocationPath_def toLowerASCII_ex9 toLowerASCII_ex11)
  ultimately show "resolveRun toLowerASCII caseShape (normalizeKey ''AB'') [] [] Map.empty
                     (Inr ''ab'')"
    using resolveRun_of_function by simp
qed

end
